theory Spec2Isabelle
  imports Main
begin

section \<open>JavaScript values and string primitives\<close>

text \<open>
  The runner of \<^verbatim>\<open>IonicSQLiteQueryRunner.ts\<close> handles untyped values: statement
  parameters, the fields of catalog rows, engine errors. They are modelled by one datatype.
  Numbers are the integers (the catalog flags and positions the runner compares are
  integers); strings are lists of 8-bit characters.
\<close>

datatype jsval = JUndefined | JNull | JBool bool | JNum int | JStr string

text \<open>An \<^verbatim>\<open>ObjectLiteral\<close>: the properties of a row in enumeration order.\<close>

type_synonym row = "(string \<times> jsval) list"

definition getProp :: "row \<Rightarrow> string \<Rightarrow> jsval" where
  \<comment> \<open>\<^verbatim>\<open>row[key]\<close>: a missing property reads as \<^verbatim>\<open>undefined\<close>.\<close>
  "getProp r k = (case map_of r k of None \<Rightarrow> JUndefined | Some v \<Rightarrow> v)"

definition keys :: "row \<Rightarrow> string list" where
  \<comment> \<open>\<^verbatim>\<open>for (const property in row)\<close> and \<^verbatim>\<open>Object.keys(row)\<close>.\<close>
  "keys r = map fst r"

definition digit :: "nat \<Rightarrow> char" where
  "digit d = char_of (48 + d)"

fun show_nat :: "nat \<Rightarrow> string" where
  "show_nat n = (if n < 10 then [digit n] else show_nat (n div 10) @ [digit (n mod 10)])"

declare show_nat.simps [simp del]

definition show_int :: "int \<Rightarrow> string" where
  "show_int i = (if i < 0 then CHR ''-'' # show_nat (nat (- i)) else show_nat (nat i))"

definition js_string :: "jsval \<Rightarrow> string" where
  \<comment> \<open>The conversion a template literal or a string concatenation applies.\<close>
  "js_string v = (case v of
       JUndefined \<Rightarrow> ''undefined''
     | JNull \<Rightarrow> ''null''
     | JBool b \<Rightarrow> (if b then ''true'' else ''false'')
     | JNum i \<Rightarrow> show_int i
     | JStr s \<Rightarrow> s)"

definition truthy :: "jsval \<Rightarrow> bool" where
  "truthy v = (case v of
       JUndefined \<Rightarrow> False
     | JNull \<Rightarrow> False
     | JBool b \<Rightarrow> b
     | JNum i \<Rightarrow> i \<noteq> 0
     | JStr s \<Rightarrow> s \<noteq> [])"

fun join :: "string \<Rightarrow> string list \<Rightarrow> string" where
  \<comment> \<open>\<^verbatim>\<open>xs.join(sep)\<close>\<close>
  "join sep [] = []"
| "join sep [x] = x"
| "join sep (x # y # ys) = x @ sep @ join sep (y # ys)"

fun indexOf_from :: "nat \<Rightarrow> string \<Rightarrow> string \<Rightarrow> int" where
  "indexOf_from i [] t = (if t = [] then int i else - 1)"
| "indexOf_from i (c # cs) t =
     (if take (length t) (c # cs) = t then int i else indexOf_from (Suc i) cs t)"

definition indexOf :: "string \<Rightarrow> string \<Rightarrow> int" where
  \<comment> \<open>\<^verbatim>\<open>s.indexOf(t)\<close>: the first position where \<open>t\<close> starts, or -1.\<close>
  "indexOf s t = indexOf_from 0 s t"

fun lastIndexOf_from :: "nat \<Rightarrow> int \<Rightarrow> string \<Rightarrow> string \<Rightarrow> int" where
  "lastIndexOf_from i found [] t = (if t = [] then int i else found)"
| "lastIndexOf_from i found (c # cs) t =
     lastIndexOf_from (Suc i) (if take (length t) (c # cs) = t then int i else found) cs t"

definition lastIndexOf :: "string \<Rightarrow> string \<Rightarrow> int" where
  \<comment> \<open>\<^verbatim>\<open>s.lastIndexOf(t)\<close>: the last position where \<open>t\<close> starts, or -1.\<close>
  "lastIndexOf s t = lastIndexOf_from 0 (- 1) s t"

definition substr_start :: "string \<Rightarrow> int \<Rightarrow> nat" where
  \<comment> \<open>A negative start counts from the end; the start is clamped to the string.\<close>
  "substr_start s start =
     (let n = int (length s)
      in nat (if start < 0 then max (n + start) 0 else min start n))"

definition substr :: "string \<Rightarrow> int \<Rightarrow> string" where
  \<comment> \<open>\<^verbatim>\<open>s.substr(start)\<close>\<close>
  "substr s start = drop (substr_start s start) s"

definition substr2 :: "string \<Rightarrow> int \<Rightarrow> int \<Rightarrow> string" where
  \<comment> \<open>\<^verbatim>\<open>s.substr(start, len)\<close>: a negative length gives the empty string.\<close>
  "substr2 s start len = take (nat len) (drop (substr_start s start) s)"

definition lower_char :: "char \<Rightarrow> char" where
  "lower_char c =
     (let n = (of_char c :: nat) in if 65 \<le> n \<and> n \<le> 90 then char_of (n + 32) else c)"

definition toLowerCase :: "string \<Rightarrow> string" where
  \<comment> \<open>On the ASCII letters, which is what an 8-bit character can hold of a type name.\<close>
  "toLowerCase s = map lower_char s"

fun indexOf_list_from :: "nat \<Rightarrow> 'a list \<Rightarrow> 'a \<Rightarrow> int" where
  "indexOf_list_from i [] x = - 1"
| "indexOf_list_from i (y # ys) x = (if y = x then int i else indexOf_list_from (Suc i) ys x)"

definition indexOf_list :: "'a list \<Rightarrow> 'a \<Rightarrow> int" where
  \<comment> \<open>\<^verbatim>\<open>xs.indexOf(x)\<close> on an array, with strict equality.\<close>
  "indexOf_list xs x = indexOf_list_from 0 xs x"

section \<open>Errors\<close>

datatype error =
    QueryRunnerAlreadyReleasedError
  | TransactionAlreadyStartedError
  | TransactionNotStartedError
  | DataTypeNotSupportedByDriverError string string
  | TypeError
  | EngineError jsval
  | ReleaseError jsval

text \<open>
  \<open>EngineError e\<close> is the rejection of a statement by the engine, \<open>e\<close> being the value
  the engine rejected with; \<open>ReleaseError e\<close> is the same for the release callback of the
  connection. \<open>TypeError\<close> is what JavaScript throws when an array or string method is
  called on a value that has none.
\<close>

section \<open>Autoincrement heuristic\<close>

definition quotedName :: "string \<Rightarrow> string" where
  \<comment> \<open>Lines 282-283, and again 287-288: what lies between the first quote of the span and
      its last quote.\<close>
  \<open>quotedName a1 =
     (let a2 = substr2 a1 0 (lastIndexOf a1 ''"'');
          a3 = substr a2 (indexOf a2 ''"'' + 1)
      in a3)\<close>

definition autoIncrementColumnName :: "string \<Rightarrow> string option" where
  \<comment> \<open>Lines 273-290 of \<^verbatim>\<open>loadSchemaTables\<close>; \<open>None\<close> is \<^verbatim>\<open>undefined\<close>.\<close>
  \<open>autoIncrementColumnName tableSql =
     (if indexOf tableSql ''AUTOINCREMENT'' \<noteq> - 1 then
        (let a0 = substr2 tableSql 0 (indexOf tableSql ''AUTOINCREMENT'');
             comma = lastIndexOf a0 '','';
             bracket = lastIndexOf a0 ''(''
         in if comma \<noteq> - 1 then Some (quotedName (substr a0 comma))
            else if bracket \<noteq> - 1 then Some (quotedName (substr a0 bracket))
            else Some a0)
      else None)\<close>

section \<open>Descriptor model\<close>

text \<open>
  The schema classes are imported by the runner. Their fields are the ones the runner reads
  and writes. A column that is an instance of \<^verbatim>\<open>ColumnMetadata\<close> carries the fields
  \<^verbatim>\<open>normalizeType\<close> reads in \<open>col_metadata\<close>; a plain \<^verbatim>\<open>ColumnSchema\<close> has
  \<open>None\<close> there.
\<close>

record ColumnMetadata =
  md_normalizedDataType :: string
  md_length :: jsval
  md_precision :: jsval
  md_scale :: jsval
  md_timezone :: bool

record ColumnSchema =
  col_name :: string
  col_type :: string
  col_default :: jsval
  col_isNullable :: bool
  col_isPrimary :: bool
  col_isUnique :: bool
  col_isGenerated :: bool
  col_comment :: string
  col_metadata :: "ColumnMetadata option"

record PrimaryKeySchema =
  pk_name :: string
  pk_columnName :: string

record ForeignKeySchema =
  fk_name :: string
  fk_columnNames :: "string list"
  fk_referencedColumnNames :: "string list"
  fk_referencedTableName :: string
  fk_onDelete :: jsval

record IndexSchema =
  idx_tableName :: string
  idx_name :: string
  idx_columnNames :: "string list"
  idx_isUnique :: bool

record TableSchema =
  tbl_name :: string
  tbl_columns :: "ColumnSchema list"
  tbl_indices :: "IndexSchema list"
  tbl_foreignKeys :: "ForeignKeySchema list"
  tbl_primaryKeys :: "PrimaryKeySchema list"

section \<open>DDL statement builder\<close>

definition normalizeType :: "string \<Rightarrow> ColumnMetadata \<Rightarrow> error + string" where
  \<comment> \<open>\<open>ty\<close> is \<^verbatim>\<open>column.type\<close>, which only the error carries.\<close>
  "normalizeType ty column =
     (let t = md_normalizedDataType column in
      if t = ''string'' then
        Inr (''character varying('' @
             (if truthy (md_length column) then js_string (md_length column) else show_nat 255)
             @ '')'')
      else if t = ''text'' then Inr ''text''
      else if t = ''boolean'' then Inr ''boolean''
      else if t = ''integer'' \<or> t = ''int'' then Inr ''integer''
      else if t = ''smallint'' then Inr ''smallint''
      else if t = ''bigint'' then Inr ''bigint''
      else if t = ''float'' then Inr ''real''
      else if t = ''double'' \<or> t = ''number'' then Inr ''double precision''
      else if t = ''decimal'' then
        (if truthy (md_precision column) \<and> truthy (md_scale column) then
           Inr (''decimal('' @ js_string (md_precision column) @ '','' @
                js_string (md_scale column) @ '')'')
         else if truthy (md_scale column) then
           Inr (''decimal('' @ js_string (md_scale column) @ '')'')
         else if truthy (md_precision column) then
           Inr (''decimal('' @ js_string (md_precision column) @ '')'')
         else Inr ''decimal'')
      else if t = ''date'' then Inr ''date''
      else if t = ''time'' then
        (if md_timezone column then Inr ''time with time zone''
         else Inr ''time without time zone'')
      else if t = ''datetime'' then
        (if md_timezone column then Inr ''timestamp with time zone''
         else Inr ''timestamp without time zone'')
      else if t = ''json'' then Inr ''json''
      else if t = ''simple_array'' then
        (if truthy (md_length column)
         then Inr (''character varying('' @ js_string (md_length column) @ '')'')
         else Inr ''text'')
      else Inl (DataTypeNotSupportedByDriverError ty ''SQLite''))"

definition columnTypeSql :: "ColumnSchema \<Rightarrow> error + string" where
  \<comment> \<open>Lines 545-549: the mapped type of a \<^verbatim>\<open>ColumnMetadata\<close>, the declared type otherwise.\<close>
  "columnTypeSql column =
     (case col_metadata column of
        Some md \<Rightarrow> normalizeType (col_type column) md
      | None \<Rightarrow> Inr (col_type column))"

definition buildCreateColumnSql :: "ColumnSchema \<Rightarrow> error + string" where
  \<open>buildCreateColumnSql column =
     (let c0 = ''"'' @ col_name column @ ''"'' in
      case columnTypeSql column of
        Inl e \<Rightarrow> Inl e
      | Inr ty \<Rightarrow>
          (let c1 = c0 @ '' '' @ ty;
               c2 = (if \<not> col_isNullable column then c1 @ '' NOT NULL'' else c1);
               c3 = (if col_isUnique column then c2 @ '' UNIQUE'' else c2);
               c4 = (if col_isGenerated column then c3 @ '' PRIMARY KEY AUTOINCREMENT'' else c3)
           in Inr c4))\<close>

fun mapE :: "('a \<Rightarrow> error + 'b) \<Rightarrow> 'a list \<Rightarrow> error + 'b list" where
  \<comment> \<open>\<^verbatim>\<open>xs.map(f)\<close> where \<open>f\<close> may throw: the first exception ends the map.\<close>
  "mapE f [] = Inr []"
| "mapE f (x # xs) =
     (case f x of
        Inl e \<Rightarrow> Inl e
      | Inr y \<Rightarrow> (case mapE f xs of Inl e \<Rightarrow> Inl e | Inr ys \<Rightarrow> Inr (y # ys)))"

definition createTableSql :: "TableSchema \<Rightarrow> error + string" where
  \<comment> \<open>The statement \<^verbatim>\<open>createTable\<close> builds, lines 370-375.\<close>
  \<open>createTableSql table =
     (case mapE buildCreateColumnSql (tbl_columns table) of
        Inl e \<Rightarrow> Inl e
      | Inr defs \<Rightarrow>
          (let columnDefinitions = join '', '' defs;
               sql0 = ''CREATE TABLE IF NOT EXISTS "'' @ tbl_name table @ ''" ('' @ columnDefinitions;
               primaryKeyColumns =
                 filter (\<lambda>column. col_isPrimary column \<and> \<not> col_isGenerated column)
                   (tbl_columns table);
               sql1 = (if length primaryKeyColumns > 0
                       then sql0 @ '', PRIMARY KEY('' @ join '', '' (map col_name primaryKeyColumns) @ '')''
                       else sql0)
           in Inr (sql1 @ '')'')))\<close>

definition addForeignKeyClause :: "string \<Rightarrow> ForeignKeySchema \<Rightarrow> string" where
  \<comment> \<open>One round of the \<^verbatim>\<open>forEach\<close> of lines 568-572.\<close>
  \<open>addForeignKeyClause sql1 foreignKey =
     (let columnNames = join '', '' (map (\<lambda>name. ''"'' @ name @ ''"'') (fk_columnNames foreignKey));
          referencedColumnNames =
            join '', '' (map (\<lambda>name. ''"'' @ name @ ''"'') (fk_referencedColumnNames foreignKey))
      in sql1 @ '', FOREIGN KEY('' @ columnNames @ '') REFERENCES "'' @
         fk_referencedTableName foreignKey @ ''"('' @ referencedColumnNames @ '')'')\<close>

definition stagingSql :: "TableSchema \<Rightarrow> error + string" where
  \<comment> \<open>\<^verbatim>\<open>sql1\<close> of \<^verbatim>\<open>recreateTable\<close>, lines 563-578.\<close>
  \<open>stagingSql tableSchema =
     (case mapE buildCreateColumnSql (tbl_columns tableSchema) of
        Inl e \<Rightarrow> Inl e
      | Inr defs \<Rightarrow>
          (let columnDefinitions = join '', '' defs;
               sql0 = ''CREATE TABLE "temporary_'' @ tbl_name tableSchema @ ''" ('' @ columnDefinitions;
               sql1 = foldl addForeignKeyClause sql0 (tbl_foreignKeys tableSchema);
               primaryKeyColumns =
                 filter (\<lambda>column. col_isPrimary column \<and> \<not> col_isGenerated column)
                   (tbl_columns tableSchema);
               sql2 = (if length primaryKeyColumns > 0
                       then sql1 @ '', PRIMARY KEY('' @ join '', '' (map col_name primaryKeyColumns) @ '')''
                       else sql1)
           in Inr (sql2 @ '')'')))\<close>

definition probeSql :: "TableSchema \<Rightarrow> string" where
  \<open>probeSql tableSchema = ''SELECT * FROM "'' @ tbl_name tableSchema @ ''"''\<close>

definition copySql :: "TableSchema \<Rightarrow> row \<Rightarrow> string" where
  \<comment> \<open>\<^verbatim>\<open>sql2\<close> of \<^verbatim>\<open>recreateTable\<close>, lines 588-595; \<open>firstData\<close> is \<^verbatim>\<open>firstDatas[0]\<close>.\<close>
  \<open>copySql tableSchema firstData =
     (let oldColumnNamesArr = keys firstData;
          newColumnNamesArr = map col_name (tbl_columns tableSchema);
          colInTwiceArr = filter (\<lambda>x. indexOf_list newColumnNamesArr x \<ge> 0) oldColumnNamesArr;
          colInTwice = join '', '' (map (\<lambda>x. ''"'' @ x @ ''"'') colInTwiceArr);
          colInTwiceWithout = join '', '' colInTwiceArr
      in ''INSERT INTO "temporary_'' @ tbl_name tableSchema @ ''" ('' @ colInTwiceWithout @
         '') SELECT '' @ colInTwice @ '' FROM "'' @ tbl_name tableSchema @ ''"'')\<close>

definition dropSql :: "TableSchema \<Rightarrow> string" where
  \<open>dropSql tableSchema = ''DROP TABLE "'' @ tbl_name tableSchema @ ''"''\<close>

definition renameSql :: "TableSchema \<Rightarrow> string" where
  \<open>renameSql tableSchema =
     ''ALTER TABLE "temporary_'' @ tbl_name tableSchema @ ''" RENAME TO "'' @
     tbl_name tableSchema @ ''"''\<close>

definition createIndexSql :: "IndexSchema \<Rightarrow> string" where
  \<comment> \<open>Lines 453-454 of \<^verbatim>\<open>createIndex\<close>.\<close>
  \<open>createIndexSql index =
     (let columnNames = join '','' (map (\<lambda>columnName. ''"'' @ columnName @ ''"'') (idx_columnNames index))
      in ''CREATE '' @ (if idx_isUnique index then ''UNIQUE '' else []) @ ''INDEX "'' @
         idx_name index @ ''" ON "'' @ idx_tableName index @ ''"('' @ columnNames @ '')'')\<close>

definition dropIndexSql :: "string \<Rightarrow> string" where
  \<open>dropIndexSql indexName = ''DROP INDEX "'' @ indexName @ ''"''\<close>

section \<open>Engine, logger and runner state\<close>

text \<open>
  The storage engine is outside the repository: \<^verbatim>\<open>db.executeSql(statement, parameters)\<close>
  is a parameter \<open>E\<close> of every operation. It takes the engine's state and returns the new
  one with either the value the promise rejects with or the result object. A result object
  has an optional row list and the \<^verbatim>\<open>insertId\<close> property.
\<close>

record sqlresult =
  res_rows :: "row list option"
  res_insertId :: jsval

type_synonym 'db engine = "'db \<Rightarrow> string \<Rightarrow> jsval list \<Rightarrow> (jsval + sqlresult) \<times> 'db"

text \<open>What \<^verbatim>\<open>query\<close> resolves with: the rows as an array, or the result object itself.\<close>

datatype qout = Rows "row list" | Raw sqlresult

datatype log_entry =
    LogQuery string "jsval list"
  | LogFailedQuery string "jsval list"
  | LogQueryError jsval

text \<open>
  The runner with the collaborators it changes: its own flag, the three fields of the
  \<^verbatim>\<open>DatabaseConnection\<close> (the resolved connection is the engine state; the release
  callback, when there is one, is given by what its promise settles with, \<open>None\<close> for
  resolved), and the calls received by the logger, oldest first.
\<close>

record 'db runner =
  isReleased :: bool
  dc_isTransactionActive :: bool
  dc_releaseCallback :: "jsval option option"
  dc_connection :: 'db
  logger :: "log_entry list"

record driver =
  escapeColumnName :: "string \<Rightarrow> string"
  escapeTableName :: "string \<Rightarrow> string"

type_synonym ('db, 'a) action = "'db runner \<Rightarrow> (error + 'a) \<times> 'db runner"

definition resolve :: "'a \<Rightarrow> ('db, 'a) action" where
  "resolve x r = (Inr x, r)"

definition throw :: "error \<Rightarrow> ('db, 'a) action" where
  "throw e r = (Inl e, r)"

definition await :: "('db, 'a) action \<Rightarrow> ('a \<Rightarrow> ('db, 'b) action) \<Rightarrow> ('db, 'b) action" where
  \<comment> \<open>\<^verbatim>\<open>const x = await m; ...\<close> in an async function without a handler.\<close>
  "await m f r = (case m r of (Inl e, r') \<Rightarrow> (Inl e, r') | (Inr x, r') \<Rightarrow> f x r')"

definition settle :: "sqlresult \<Rightarrow> qout" where
  \<comment> \<open>Lines 135-147.\<close>
  "settle result = (case res_rows result of Some rs \<Rightarrow> Rows rs | None \<Rightarrow> Raw result)"

definition release :: "('db, unit) action" where
  "release r =
     (case dc_releaseCallback r of
        Some outcome \<Rightarrow>
          ((case outcome of None \<Rightarrow> Inr () | Some e \<Rightarrow> Inl (ReleaseError e)),
           r\<lparr>isReleased := True\<rparr>)
      | None \<Rightarrow> (Inr (), r))"

definition isTransactionActive :: "'db runner \<Rightarrow> bool" where
  "isTransactionActive r = dc_isTransactionActive r"

definition query :: "'db engine \<Rightarrow> string \<Rightarrow> jsval list \<Rightarrow> ('db, qout) action" where
  "query E q parameters r =
     (if isReleased r then (Inl QueryRunnerAlreadyReleasedError, r)
      else
        (let r1 = r\<lparr>logger := logger r @ [LogQuery q parameters]\<rparr> in
         case E (dc_connection r1) q parameters of
           (Inr result, db) \<Rightarrow> (Inr (settle result), r1\<lparr>dc_connection := db\<rparr>)
         | (Inl err, db) \<Rightarrow>
             (Inl (EngineError err),
              r1\<lparr>dc_connection := db,
                 logger := logger r1 @ [LogFailedQuery q parameters, LogQueryError err]\<rparr>)))"

text \<open>
  Statements started together and awaited with \<^verbatim>\<open>Promise.all\<close>. Each call of
  \<^verbatim>\<open>query\<close> logs its statement when it is made, so all are logged before any runs; the
  single connection then runs them in the order they were issued, and every one of them
  runs whatever the others do. \<open>issueAll\<close> returns what each promise settles with.
\<close>

fun executeAll :: "'db engine \<Rightarrow> string list \<Rightarrow> 'db runner \<Rightarrow> (error + qout) list \<times> 'db runner" where
  "executeAll E [] r = ([], r)"
| "executeAll E (q # qs) r =
     (case E (dc_connection r) q [] of
        (Inr result, db) \<Rightarrow>
          (let (outs, r') = executeAll E qs (r\<lparr>dc_connection := db\<rparr>)
           in (Inr (settle result) # outs, r'))
      | (Inl err, db) \<Rightarrow>
          (let (outs, r') =
                 executeAll E qs
                   (r\<lparr>dc_connection := db,
                      logger := logger r @ [LogFailedQuery q [], LogQueryError err]\<rparr>)
           in (Inl (EngineError err) # outs, r')))"

definition issueAll :: "'db engine \<Rightarrow> string list \<Rightarrow> 'db runner \<Rightarrow> (error + qout) list \<times> 'db runner" where
  "issueAll E qs r =
     (if isReleased r then (map (\<lambda>q. Inl QueryRunnerAlreadyReleasedError) qs, r)
      else executeAll E qs (r\<lparr>logger := logger r @ map (\<lambda>q. LogQuery q []) qs\<rparr>))"

fun promiseAll :: "(error + 'a) list \<Rightarrow> error + 'a list" where
  \<comment> \<open>Rejects with the first rejection, resolves with all the values otherwise.\<close>
  "promiseAll [] = Inr []"
| "promiseAll (Inl e # ps) = Inl e"
| "promiseAll (Inr x # ps) = (case promiseAll ps of Inl e \<Rightarrow> Inl e | Inr xs \<Rightarrow> Inr (x # xs))"

definition asArray :: "qout \<Rightarrow> error + row list" where
  \<comment> \<open>An array method called on what \<^verbatim>\<open>query\<close> resolved with.\<close>
  "asArray out = (case out of Rows rs \<Rightarrow> Inr rs | Raw result \<Rightarrow> Inl TypeError)"

section \<open>Table recreation engine\<close>

definition createIndex :: "'db engine \<Rightarrow> IndexSchema \<Rightarrow> ('db, unit) action" where
  "createIndex E index r =
     (if isReleased r then (Inl QueryRunnerAlreadyReleasedError, r)
      else await (query E (createIndexSql index) []) (\<lambda>_. resolve ()) r)"

definition rebuildIndices :: "'db engine \<Rightarrow> TableSchema \<Rightarrow> ('db, unit) action" where
  \<comment> \<open>Lines 608-610: every \<^verbatim>\<open>createIndex\<close> is started, then all are awaited.\<close>
  "rebuildIndices E tableSchema r =
     (let (outs, r') = issueAll E (map createIndexSql (tbl_indices tableSchema)) r
      in (case promiseAll outs of Inl e \<Rightarrow> (Inl e, r') | Inr _ \<Rightarrow> (Inr (), r')))"

definition copyData :: "'db engine \<Rightarrow> TableSchema \<Rightarrow> qout \<Rightarrow> ('db, unit) action" where
  \<comment> \<open>Lines 586-597. The result object of a statement without rows has no length.\<close>
  "copyData E tableSchema firstDatas =
     (case firstDatas of
        Rows (firstData # _) \<Rightarrow>
          await (query E (copySql tableSchema firstData) []) (\<lambda>_. resolve ())
      | Rows [] \<Rightarrow> resolve ()
      | Raw result \<Rightarrow> resolve ())"

definition recreateTable :: "'db engine \<Rightarrow> TableSchema \<Rightarrow> ('db, unit) action" where
  "recreateTable E tableSchema =
     (case stagingSql tableSchema of
        Inl e \<Rightarrow> throw e
      | Inr sql1 \<Rightarrow>
          await (query E sql1 []) (\<lambda>_.
          await (query E (probeSql tableSchema) []) (\<lambda>firstDatas.
          await (copyData E tableSchema firstDatas) (\<lambda>_.
          await (query E (dropSql tableSchema) []) (\<lambda>_.
          await (query E (renameSql tableSchema) []) (\<lambda>_.
          rebuildIndices E tableSchema))))))"

section \<open>Operations of the runner\<close>

text \<open>
  All the public operations but \<^verbatim>\<open>insertIntoClosureTable\<close>, which no property below is
  about. \<^verbatim>\<open>insert\<close>, \<^verbatim>\<open>update\<close> and \<^verbatim>\<open>delete\<close> take the escaping functions of the driver,
  which is outside the source file, as the parameter \<open>D\<close>.
\<close>

definition selectDropsQuery :: string where
  \<comment> \<open>The text ends with the quote that closes \<^verbatim>\<open>'sqlite_sequence'\<close>.\<close>
  "selectDropsQuery =
     ''select 'drop table ' || name || ';' as query from sqlite_master where type = 'table' and name != 'sqlite_sequence''
     @ [CHR 0x27]"

definition clearDatabase :: "'db engine \<Rightarrow> ('db, unit) action" where
  "clearDatabase E r =
     (if isReleased r then (Inl QueryRunnerAlreadyReleasedError, r)
      else
        await (query E selectDropsQuery [])
          (\<lambda>dropQueries.
             case asArray dropQueries of
               Inl e \<Rightarrow> throw e
             | Inr rs \<Rightarrow>
                 (\<lambda>r1. let (outs, r2) = issueAll E (map (\<lambda>q. js_string (getProp q ''query'')) rs) r1
                       in (case promiseAll outs of Inl e \<Rightarrow> (Inl e, r2) | Inr _ \<Rightarrow> (Inr (), r2))))
          r)"

definition beginTransaction :: "'db engine \<Rightarrow> ('db, unit) action" where
  "beginTransaction E r =
     (if isReleased r then (Inl QueryRunnerAlreadyReleasedError, r)
      else if dc_isTransactionActive r then (Inl TransactionAlreadyStartedError, r)
      else await (query E ''BEGIN TRANSACTION'' []) (\<lambda>_. resolve ())
             (r\<lparr>dc_isTransactionActive := True\<rparr>))"

definition commitTransaction :: "'db engine \<Rightarrow> ('db, unit) action" where
  "commitTransaction E r =
     (if isReleased r then (Inl QueryRunnerAlreadyReleasedError, r)
      else if \<not> dc_isTransactionActive r then (Inl TransactionNotStartedError, r)
      else await (query E ''COMMIT'' [])
             (\<lambda>_ r'. (Inr (), r'\<lparr>dc_isTransactionActive := False\<rparr>)) r)"

definition rollbackTransaction :: "'db engine \<Rightarrow> ('db, unit) action" where
  "rollbackTransaction E r =
     (if isReleased r then (Inl QueryRunnerAlreadyReleasedError, r)
      else if \<not> dc_isTransactionActive r then (Inl TransactionNotStartedError, r)
      else await (query E ''ROLLBACK'' [])
             (\<lambda>_ r'. (Inr (), r'\<lparr>dc_isTransactionActive := False\<rparr>)) r)"

definition parametrize :: "driver \<Rightarrow> row \<Rightarrow> nat \<Rightarrow> string list" where
  "parametrize D objectLiteral startIndex =
     map (\<lambda>(index, key). escapeColumnName D key @ ''=$'' @ show_nat (startIndex + index + 1))
       (enumerate 0 (keys objectLiteral))"

definition insertSql :: "driver \<Rightarrow> string \<Rightarrow> row \<Rightarrow> string" where
  \<comment> \<open>Lines 165-168 of \<^verbatim>\<open>insert\<close>.\<close>
  "insertSql D tableName keyValues =
     (let ks = keys keyValues;
          columns = join '', '' (map (escapeColumnName D) ks);
          values = join '','' (map (\<lambda>(index, key). ''$'' @ show_nat (index + 1)) (enumerate 0 ks))
      in ''INSERT INTO '' @ escapeTableName D tableName @ ''('' @ columns @
         '') VALUES ('' @ values @ '')'')"

definition insertParameters :: "row \<Rightarrow> jsval list" where
  \<comment> \<open>Line 169.\<close>
  "insertParameters keyValues = map (getProp keyValues) (keys keyValues)"

definition insert_row ::
  "'db engine \<Rightarrow> driver \<Rightarrow> string \<Rightarrow> row \<Rightarrow> bool \<Rightarrow> ('db, jsval) action" where
  \<comment> \<open>\<^verbatim>\<open>insert\<close>; \<open>generatedColumn\<close> tells whether the optional argument was given.\<close>
  "insert_row E D tableName keyValues generatedColumn r =
     (if isReleased r then (Inl QueryRunnerAlreadyReleasedError, r)
      else
        (let sql = insertSql D tableName keyValues;
             parameters = insertParameters keyValues;
             r1 = r\<lparr>logger := logger r @ [LogQuery sql parameters]\<rparr>
         in case E (dc_connection r1) sql parameters of
              (Inr result, db) \<Rightarrow>
                (Inr (if generatedColumn then res_insertId result else JUndefined),
                 r1\<lparr>dc_connection := db\<rparr>)
            | (Inl err, db) \<Rightarrow>
                (Inl (EngineError err),
                 r1\<lparr>dc_connection := db,
                    logger := logger r1 @ [LogFailedQuery sql parameters, LogQueryError err]\<rparr>)))"

definition update_rows ::
  "'db engine \<Rightarrow> driver \<Rightarrow> string \<Rightarrow> row \<Rightarrow> row \<Rightarrow> ('db, unit) action" where
  \<comment> \<open>\<^verbatim>\<open>update\<close>\<close>
  "update_rows E D tableName valuesMap conditions r =
     (if isReleased r then (Inl QueryRunnerAlreadyReleasedError, r)
      else
        (let updateValues = join '', '' (parametrize D valuesMap 0);
             conditionString =
               join '' AND '' (parametrize D conditions (length (keys valuesMap)));
             q = ''UPDATE '' @ escapeTableName D tableName @ '' SET '' @ updateValues @ '' '' @
                 (if conditionString \<noteq> [] then '' WHERE '' @ conditionString else []);
             updateParams = map (getProp valuesMap) (keys valuesMap);
             conditionParams = map (getProp conditions) (keys conditions);
             allParameters = updateParams @ conditionParams
         in await (query E q allParameters) (\<lambda>_. resolve ()) r))"

definition delete_rows ::
  "'db engine \<Rightarrow> driver \<Rightarrow> string \<Rightarrow> row \<Rightarrow> ('db, unit) action" where
  \<comment> \<open>\<^verbatim>\<open>delete\<close>\<close>
  \<open>delete_rows E D tableName conditions r =
     (if isReleased r then (Inl QueryRunnerAlreadyReleasedError, r)
      else
        (let conditionString = join '' AND '' (parametrize D conditions 0);
             parameters = map (getProp conditions) (keys conditions);
             q = ''DELETE FROM "'' @ tableName @ ''" WHERE '' @ conditionString
         in await (query E q parameters) (\<lambda>_. resolve ()) r))\<close>

definition createTable :: "'db engine \<Rightarrow> TableSchema \<Rightarrow> ('db, unit) action" where
  "createTable E table r =
     (if isReleased r then (Inl QueryRunnerAlreadyReleasedError, r)
      else
        (case createTableSql table of
           Inl e \<Rightarrow> (Inl e, r)
         | Inr sql \<Rightarrow> await (query E sql []) (\<lambda>_. resolve ()) r))"

definition createColumns ::
  "'db engine \<Rightarrow> TableSchema \<Rightarrow> ColumnSchema list \<Rightarrow> ('db, unit) action" where
  "createColumns E tableSchema columns r =
     (if isReleased r then (Inl QueryRunnerAlreadyReleasedError, r)
      else recreateTable E tableSchema r)"

definition changeColumns ::
  "'db engine \<Rightarrow> TableSchema \<Rightarrow> (ColumnSchema \<times> ColumnSchema) list \<Rightarrow> ('db, unit) action" where
  \<comment> \<open>A changed column is the pair of its \<^verbatim>\<open>newColumn\<close> and its \<^verbatim>\<open>oldColumn\<close>.\<close>
  "changeColumns E tableSchema changedColumns r =
     (if isReleased r then (Inl QueryRunnerAlreadyReleasedError, r)
      else recreateTable E tableSchema r)"

definition updatePrimaryKeys :: "'db engine \<Rightarrow> TableSchema \<Rightarrow> ('db, unit) action" where
  "updatePrimaryKeys E dbTable r =
     (if isReleased r then (Inl QueryRunnerAlreadyReleasedError, r)
      else recreateTable E dbTable r)"

definition dropIndex :: "'db engine \<Rightarrow> string \<Rightarrow> string \<Rightarrow> bool \<Rightarrow> ('db, unit) action" where
  "dropIndex E tableName indexName isGenerated r =
     (if isReleased r then (Inl QueryRunnerAlreadyReleasedError, r)
      else await (query E (dropIndexSql indexName) []) (\<lambda>_. resolve ()) r)"

section \<open>Schema classes used by the runner\<close>

definition newTableSchema :: "string \<Rightarrow> TableSchema" where
  \<comment> \<open>Modelled from the spec: the constructor of \<^verbatim>\<open>TableSchema\<close> is not in the source
      file; a fresh descriptor has the given name and four empty lists.\<close>
  "newTableSchema n =
     \<lparr>tbl_name = n, tbl_columns = [], tbl_indices = [], tbl_foreignKeys = [],
      tbl_primaryKeys = []\<rparr>"

definition newColumnSchema :: ColumnSchema where
  \<comment> \<open>Modelled from the spec: the constructor of \<^verbatim>\<open>ColumnSchema\<close> is not in the source
      file; a fresh column has no name, type or default yet and none of its flags set.\<close>
  "newColumnSchema =
     \<lparr>col_name = [], col_type = [], col_default = JUndefined, col_isNullable = False,
      col_isPrimary = False, col_isUnique = False, col_isGenerated = False, col_comment = [],
      col_metadata = None\<rparr>"

definition newPrimaryKeySchema :: "string \<Rightarrow> string \<Rightarrow> PrimaryKeySchema" where
  \<comment> \<open>Modelled from the spec: the constructor of \<^verbatim>\<open>PrimaryKeySchema\<close> is not in the
      source file; it takes the name of the owning index and the column name.\<close>
  "newPrimaryKeySchema n columnName = \<lparr>pk_name = n, pk_columnName = columnName\<rparr>"

definition newForeignKeySchema ::
  "string \<Rightarrow> string list \<Rightarrow> string list \<Rightarrow> string \<Rightarrow> jsval \<Rightarrow> ForeignKeySchema" where
  \<comment> \<open>Modelled from the spec: the constructor of \<^verbatim>\<open>ForeignKeySchema\<close> is not in the
      source file; it takes the name, the local columns, the referenced columns, the
      referenced table and the on-delete action.\<close>
  "newForeignKeySchema n columnNames referencedColumnNames referencedTable onDelete =
     \<lparr>fk_name = n, fk_columnNames = columnNames,
      fk_referencedColumnNames = referencedColumnNames,
      fk_referencedTableName = referencedTable, fk_onDelete = onDelete\<rparr>"

definition newIndexSchema :: "string \<Rightarrow> string \<Rightarrow> string list \<Rightarrow> bool \<Rightarrow> IndexSchema" where
  \<comment> \<open>Modelled from the spec: the constructor of \<^verbatim>\<open>IndexSchema\<close> is not in the source
      file; it takes the table name, the index name, the indexed columns and the uniqueness
      flag.\<close>
  "newIndexSchema tableName n columnNames isUnique =
     \<lparr>idx_tableName = tableName, idx_name = n, idx_columnNames = columnNames,
      idx_isUnique = isUnique\<rparr>"

definition addForeignKeys :: "ForeignKeySchema list \<Rightarrow> TableSchema \<Rightarrow> TableSchema" where
  \<comment> \<open>Modelled from the spec: \<^verbatim>\<open>TableSchema.addForeignKeys\<close> is not in the source file;
      the given foreign keys are attached to the table, after the ones it has.\<close>
  "addForeignKeys foreignKeys t = t\<lparr>tbl_foreignKeys := tbl_foreignKeys t @ foreignKeys\<rparr>"

fun removeFirst :: "('a \<Rightarrow> bool) \<Rightarrow> 'a list \<Rightarrow> 'a list" where
  "removeFirst P [] = []"
| "removeFirst P (x # xs) = (if P x then xs else x # removeFirst P xs)"

definition removeColumns :: "ColumnSchema list \<Rightarrow> TableSchema \<Rightarrow> TableSchema" where
  \<comment> \<open>Modelled from the spec: \<^verbatim>\<open>TableSchema.removeColumns\<close> is not in the source file;
      each given column is dropped from the table, found by its name.\<close>
  "removeColumns columns t =
     t\<lparr>tbl_columns :=
         foldl (\<lambda>cs column. removeFirst (\<lambda>c. col_name c = col_name column) cs)
           (tbl_columns t) columns\<rparr>"

definition removeForeignKeys :: "ForeignKeySchema list \<Rightarrow> TableSchema \<Rightarrow> TableSchema" where
  \<comment> \<open>Modelled from the spec: \<^verbatim>\<open>TableSchema.removeForeignKeys\<close> is not in the source
      file; each given foreign key is dropped from the table, found by its name.\<close>
  "removeForeignKeys foreignKeys t =
     t\<lparr>tbl_foreignKeys :=
         foldl (\<lambda>ks foreignKey. removeFirst (\<lambda>k. fk_name k = fk_name foreignKey) ks)
           (tbl_foreignKeys t) foreignKeys\<rparr>"

text \<open>
  A \<^verbatim>\<open>TableSchema\<close> argument is a reference to an object the caller keeps. The store
  holds the table descriptors by address; an address is a position in the list, and the
  operations below are given the address of a descriptor that is in the store.
\<close>

type_synonym store = "TableSchema list"

definition clone :: "nat \<Rightarrow> store \<Rightarrow> nat \<times> store" where
  \<comment> \<open>Modelled from the spec: \<^verbatim>\<open>TableSchema.clone\<close> is not in the source file; a clone is
      a new descriptor with copies of the columns, indices and keys of the original.\<close>
  "clone a h = (length h, h @ [h ! a])"

definition dropColumns ::
  "'db engine \<Rightarrow> nat \<Rightarrow> ColumnSchema list \<Rightarrow> store \<Rightarrow> 'db runner
     \<Rightarrow> ((error + unit) \<times> 'db runner) \<times> store" where
  "dropColumns E tableSchema columns h r =
     (if isReleased r then ((Inl QueryRunnerAlreadyReleasedError, r), h)
      else
        (let (newTable, h1) = clone tableSchema h;
             h2 = h1[newTable := removeColumns columns (h1 ! newTable)]
         in (recreateTable E (h2 ! newTable) r, h2)))"

definition createForeignKeys ::
  "'db engine \<Rightarrow> nat \<Rightarrow> ForeignKeySchema list \<Rightarrow> store \<Rightarrow> 'db runner
     \<Rightarrow> ((error + unit) \<times> 'db runner) \<times> store" where
  "createForeignKeys E tableSchema foreignKeys h r =
     (if isReleased r then ((Inl QueryRunnerAlreadyReleasedError, r), h)
      else
        (let (newTable, h1) = clone tableSchema h;
             h2 = h1[newTable := addForeignKeys foreignKeys (h1 ! newTable)]
         in (recreateTable E (h2 ! newTable) r, h2)))"

definition dropForeignKeys ::
  "'db engine \<Rightarrow> nat \<Rightarrow> ForeignKeySchema list \<Rightarrow> store \<Rightarrow> 'db runner
     \<Rightarrow> ((error + unit) \<times> 'db runner) \<times> store" where
  "dropForeignKeys E tableSchema foreignKeys h r =
     (if isReleased r then ((Inl QueryRunnerAlreadyReleasedError, r), h)
      else
        (let (newTable, h1) = clone tableSchema h;
             h2 = h1[newTable := removeForeignKeys foreignKeys (h1 ! newTable)]
         in (recreateTable E (h2 ! newTable) r, h2)))"

section \<open>Catalog reader\<close>

text \<open>
  The fields of a catalog row are untyped. Where the runner stores one in a descriptor
  field declared \<^verbatim>\<open>string\<close>, or puts it in a statement, the model stores its string
  conversion; where the runner calls a string method on one, a value that is not a string
  is a \<open>TypeError\<close>. Comparisons with \<^verbatim>\<open>===\<close> are equality of values.
\<close>

type_synonym namingStrategy = "string \<Rightarrow> string list \<Rightarrow> string \<Rightarrow> string list \<Rightarrow> string"

definition tablesSql :: string where
  "tablesSql =
     ''SELECT * FROM sqlite_master WHERE type = 'table' AND name != 'sqlite_sequence''
     @ [CHR 0x27]"

definition tableInfoSql :: "string \<Rightarrow> string" where
  \<open>tableInfoSql n = ''PRAGMA table_info("'' @ n @ ''")''\<close>

definition indexListSql :: "string \<Rightarrow> string" where
  \<open>indexListSql n = ''PRAGMA index_list("'' @ n @ ''")''\<close>

definition foreignKeyListSql :: "string \<Rightarrow> string" where
  \<open>foreignKeyListSql n = ''PRAGMA foreign_key_list("'' @ n @ ''")''\<close>

definition indexInfoSql :: "string \<Rightarrow> string" where
  \<open>indexInfoSql n = ''PRAGMA index_info("'' @ n @ ''")''\<close>

definition tableAutoIncrement :: "row \<Rightarrow> error + string option" where
  \<comment> \<open>Lines 274-290, on the \<^verbatim>\<open>sql\<close> field of the catalog row of the table.\<close>
  "tableAutoIncrement dbTable =
     (case getProp dbTable ''sql'' of
        JStr tableSql \<Rightarrow> Inr (autoIncrementColumnName tableSql)
      | _ \<Rightarrow> Inl TypeError)"

definition readForeignKey :: "namingStrategy \<Rightarrow> string \<Rightarrow> row \<Rightarrow> ForeignKeySchema" where
  \<comment> \<open>Lines 305-306.\<close>
  "readForeignKey namingStrategy tableName foreignKey =
     (let from = js_string (getProp foreignKey ''from'');
          to = js_string (getProp foreignKey ''to'');
          table = js_string (getProp foreignKey ''table'');
          keyName = namingStrategy tableName [from] table [to]
      in newForeignKeySchema keyName [from] [to] table (getProp foreignKey ''on_delete''))"

definition readColumn ::
  "namingStrategy \<Rightarrow> string \<Rightarrow> string option \<Rightarrow> qout \<Rightarrow> row
     \<Rightarrow> error + ColumnSchema \<times> ForeignKeySchema list" where
  \<comment> \<open>Lines 293-310, one column row: the column and the foreign keys it adds to the table.\<close>
  "readColumn namingStrategy tableName autoIncrement dbForeignKeys dbColumn =
     (case getProp dbColumn ''type'' of
        JStr ty \<Rightarrow>
          (case asArray dbForeignKeys of
             Inl e \<Rightarrow> Inl e
           | Inr fks \<Rightarrow>
               Inr (newColumnSchema
                      \<lparr>col_name := js_string (getProp dbColumn ''name''),
                       col_type := toLowerCase ty,
                       col_default :=
                         (if getProp dbColumn ''dflt_value'' \<noteq> JNull \<and>
                             getProp dbColumn ''dflt_value'' \<noteq> JUndefined
                          then getProp dbColumn ''dflt_value'' else JUndefined),
                       col_isNullable := (getProp dbColumn ''notnull'' = JNum 0),
                       col_isPrimary := (getProp dbColumn ''pk'' = JNum 1),
                       col_comment := [],
                       col_isGenerated :=
                         ((case autoIncrement of None \<Rightarrow> JUndefined | Some a \<Rightarrow> JStr a)
                          = getProp dbColumn ''name'')\<rparr>,
                    map (readForeignKey namingStrategy tableName)
                      (filter (\<lambda>foreignKey. getProp foreignKey ''from'' = getProp dbColumn ''name'')
                         fks)))
      | _ \<Rightarrow> Inl TypeError)"

definition readPrimaryKey :: "row \<times> (error + qout) \<Rightarrow> error + PrimaryKeySchema list" where
  \<comment> \<open>Lines 315-320: the keys one primary-key index pushes, once its query has settled.\<close>
  "readPrimaryKey p =
     (case p of (index, out) \<Rightarrow>
        (case out of
           Inl e \<Rightarrow> Inl e
         | Inr indexInfos \<Rightarrow>
             (case asArray indexInfos of
                Inl e \<Rightarrow> Inl e
              | Inr infos \<Rightarrow>
                  Inr (map (\<lambda>indexInfo.
                         newPrimaryKeySchema (js_string (getProp index ''name''))
                           (js_string (getProp indexInfo ''name''))) infos))))"

fun firstOccurrences :: "'a list \<Rightarrow> 'a list \<Rightarrow> 'a list" where
  \<comment> \<open>\<^verbatim>\<open>.filter((value, index, self) => self.indexOf(value) === index)\<close>\<close>
  "firstOccurrences seen [] = []"
| "firstOccurrences seen (x # xs) =
     (if x \<in> set seen then firstOccurrences seen xs else x # firstOccurrences (x # seen) xs)"

fun markUnique :: "jsval \<Rightarrow> ColumnSchema list \<Rightarrow> ColumnSchema list" where
  \<comment> \<open>Lines 342-344: the first column of that name, if there is one, becomes unique.\<close>
  "markUnique columnName [] = []"
| "markUnique columnName (c # cs) =
     (if JStr (col_name c) = columnName then c\<lparr>col_isUnique := True\<rparr> # cs
      else c # markUnique columnName cs)"

definition readIndex ::
  "string \<Rightarrow> ColumnSchema list \<Rightarrow> row \<times> (error + qout)
     \<Rightarrow> (error + IndexSchema option) \<times> ColumnSchema list" where
  \<comment> \<open>Lines 334-352: what the promise of one index settles with, and the columns after it.\<close>
  "readIndex tableName columns p =
     (case p of (dbIndex, out) \<Rightarrow>
        (case out of
           Inl e \<Rightarrow> (Inl e, columns)
         | Inr indexInfos \<Rightarrow>
             (case asArray indexInfos of
                Inl e \<Rightarrow> (Inl e, columns)
              | Inr infos \<Rightarrow>
                  (let indexColumns = map (\<lambda>indexInfo. getProp indexInfo ''name'') infos in
                   case getProp dbIndex ''name'' of
                     JStr n \<Rightarrow>
                       (if substr2 n 0 (int (length ''sqlite_autoindex'')) = ''sqlite_autoindex''
                        then
                          (if getProp dbIndex ''unique'' = JNum 1
                           then (Inr None, foldl (\<lambda>cs columnName. markUnique columnName cs) columns indexColumns)
                           else (Inr None, columns))
                        else
                          (Inr (Some (newIndexSchema tableName n (map js_string indexColumns)
                                        (getProp dbIndex ''unique'' = JStr ''1''))),
                           columns))
                   | _ \<Rightarrow> (Inl TypeError, columns)))))"

fun readIndices ::
  "string \<Rightarrow> ColumnSchema list \<Rightarrow> (row \<times> (error + qout)) list
     \<Rightarrow> (error + IndexSchema option) list \<times> ColumnSchema list" where
  "readIndices tableName columns [] = ([], columns)"
| "readIndices tableName columns (p # ps) =
     (let (out, columns1) = readIndex tableName columns p;
          (outs, columns2) = readIndices tableName columns1 ps
      in (out # outs, columns2))"

definition isOrdinaryIndex :: "TableSchema \<Rightarrow> row \<Rightarrow> bool" where
  \<comment> \<open>The filter of lines 325-329.\<close>
  "isOrdinaryIndex tableSchema dbIndex =
     (getProp dbIndex ''origin'' \<noteq> JStr ''pk'' \<and>
      find (\<lambda>foreignKey. JStr (fk_name foreignKey) = getProp dbIndex ''name'')
        (tbl_foreignKeys tableSchema) = None \<and>
      find (\<lambda>primaryKey. JStr (pk_name primaryKey) = getProp dbIndex ''name'')
        (tbl_primaryKeys tableSchema) = None)"

definition loadIndices ::
  "'db engine \<Rightarrow> TableSchema \<Rightarrow> row list \<Rightarrow> ('db, TableSchema) action" where
  \<comment> \<open>Lines 324-358.\<close>
  "loadIndices E tableSchema dbIndices r =
     (let names = firstOccurrences []
                    (map (\<lambda>dbIndex. getProp dbIndex ''name'')
                       (filter (isOrdinaryIndex tableSchema) dbIndices));
          found = map (\<lambda>dbIndexName.
                    case find (\<lambda>dbIndex. getProp dbIndex ''name'' = dbIndexName) dbIndices of
                      Some dbIndex \<Rightarrow> dbIndex
                    | None \<Rightarrow> []) names;
          (outs, r1) = issueAll E (map (\<lambda>dbIndex. indexInfoSql (js_string (getProp dbIndex ''name''))) found) r;
          (results, columns1) = readIndices (tbl_name tableSchema) (tbl_columns tableSchema) (zip found outs)
      in case promiseAll results of
           Inl e \<Rightarrow> (Inl e, r1)
         | Inr indices \<Rightarrow>
             (Inr (tableSchema\<lparr>tbl_columns := columns1,
                              tbl_indices := concat (map (\<lambda>index. case index of None \<Rightarrow> [] | Some i \<Rightarrow> [i]) indices)\<rparr>),
              r1))"

definition loadPrimaryKeys ::
  "'db engine \<Rightarrow> TableSchema \<Rightarrow> row list \<Rightarrow> ('db, TableSchema) action" where
  \<comment> \<open>Lines 313-321.\<close>
  "loadPrimaryKeys E tableSchema dbIndices r =
     (let pkIndices = filter (\<lambda>index. getProp index ''origin'' = JStr ''pk'') dbIndices;
          (outs, r1) = issueAll E (map (\<lambda>index. indexInfoSql (js_string (getProp index ''name''))) pkIndices) r
      in case promiseAll (map readPrimaryKey (zip pkIndices outs)) of
           Inl e \<Rightarrow> (Inl e, r1)
         | Inr pushed \<Rightarrow>
             (Inr (tableSchema\<lparr>tbl_primaryKeys := tbl_primaryKeys tableSchema @ concat pushed\<rparr>), r1))"

definition loadTable :: "'db engine \<Rightarrow> namingStrategy \<Rightarrow> row \<Rightarrow> ('db, TableSchema) action" where
  \<comment> \<open>The callback of lines 263-359, for one row of the table list.\<close>
  "loadTable E namingStrategy dbTable r =
     (let tableName = js_string (getProp dbTable ''name'');
          tableSchema = newTableSchema tableName;
          (outs, r1) = issueAll E [tableInfoSql tableName, indexListSql tableName,
                                   foreignKeyListSql tableName] r
      in case promiseAll outs of
           Inl e \<Rightarrow> (Inl e, r1)
         | Inr [dbColumns, dbIndices, dbForeignKeys] \<Rightarrow>
             (case tableAutoIncrement dbTable of
                Inl e \<Rightarrow> (Inl e, r1)
              | Inr autoIncrement \<Rightarrow>
                  (case asArray dbColumns of
                     Inl e \<Rightarrow> (Inl e, r1)
                   | Inr columnRows \<Rightarrow>
                       (case mapE (readColumn namingStrategy tableName autoIncrement dbForeignKeys) columnRows of
                          Inl e \<Rightarrow> (Inl e, r1)
                        | Inr read \<Rightarrow>
                            (let tableSchema1 =
                                   addForeignKeys (concat (map snd read))
                                     (tableSchema\<lparr>tbl_columns := map fst read\<rparr>)
                             in case asArray dbIndices of
                                  Inl e \<Rightarrow> (Inl e, r1)
                                | Inr indexRows \<Rightarrow>
                                    await (loadPrimaryKeys E tableSchema1 indexRows)
                                      (\<lambda>tableSchema2. loadIndices E tableSchema2 indexRows) r1))))
         | Inr _ \<Rightarrow> (Inl TypeError, r1))"

text \<open>
  The callbacks of the tables are started together and each runs to its end, whatever
  happens to the others: the three reflection statements of every table are issued before
  any answer comes, and \<^verbatim>\<open>Promise.all\<close> rejects with the failure that happens first.
  How the later statements of the tables interleave depends on when the engine answers.
  The model runs the callbacks one after the other, in the order of the table list: within
  one table the statements are in the order the code issues them, across tables they are
  not, and of the failures of several tables the model returns that of the first table in
  the list. The properties of \<open>loadSchemaTables\<close> below are about its guard, about what
  it returns when no statement fails and about which statements it issues, not about their
  order across tables.
\<close>

fun runAll :: "('db, 'a) action list \<Rightarrow> 'db runner \<Rightarrow> (error + 'a) list \<times> 'db runner" where
  "runAll [] r = ([], r)"
| "runAll (m # ms) r =
     (let (out, r1) = m r; (outs, r2) = runAll ms r1 in (out # outs, r2))"

definition loadSchemaTables ::
  "'db engine \<Rightarrow> namingStrategy \<Rightarrow> string list option \<Rightarrow> ('db, TableSchema list) action" where
  \<comment> \<open>\<open>None\<close> is a missing list of names.\<close>
  "loadSchemaTables E namingStrategy tableNames r =
     (if isReleased r then (Inl QueryRunnerAlreadyReleasedError, r)
      else if tableNames = None \<or> tableNames = Some [] then (Inr [], r)
      else
        await (query E tablesSql [])
          (\<lambda>dbTables r1.
             case dbTables of
               Raw result \<Rightarrow> (Inr [], r1)
             | Rows [] \<Rightarrow> (Inr [], r1)
             | Rows (t # ts) \<Rightarrow>
                 (let (outs, r2) = runAll (map (loadTable E namingStrategy) (t # ts)) r1
                  in (promiseAll outs, r2)))
          r)"

section \<open>Reading the logger\<close>

definition entries :: "'db runner \<Rightarrow> 'db runner \<Rightarrow> log_entry list" where
  \<comment> \<open>What the logger received between an earlier state of the runner and a later one.\<close>
  "entries r r' = drop (length (logger r)) (logger r')"

fun issued :: "log_entry list \<Rightarrow> string list" where
  \<comment> \<open>The statements handed to the engine, in the order they were issued.\<close>
  "issued [] = []"
| "issued (LogQuery q ps # es) = q # issued es"
| "issued (LogFailedQuery q ps # es) = issued es"
| "issued (LogQueryError e # es) = issued es"

fun errorsOf :: "log_entry list \<Rightarrow> jsval list" where
  "errorsOf [] = []"
| "errorsOf (LogQuery q ps # es) = errorsOf es"
| "errorsOf (LogFailedQuery q ps # es) = errorsOf es"
| "errorsOf (LogQueryError e # es) = e # errorsOf es"

definition firstError :: "log_entry list \<Rightarrow> jsval option" where
  "firstError l = (case errorsOf l of [] \<Rightarrow> None | e # es \<Rightarrow> Some e)"

fun noIssueAfterError :: "log_entry list \<Rightarrow> bool" where
  \<comment> \<open>Once an engine error is logged, no further statement is issued.\<close>
  "noIssueAfterError [] = True"
| "noIssueAfterError (LogQueryError e # es) = (issued es = [])"
| "noIssueAfterError (LogQuery q ps # es) = noIssueAfterError es"
| "noIssueAfterError (LogFailedQuery q ps # es) = noIssueAfterError es"

fun engineErrorOf :: "error + 'a \<Rightarrow> jsval option" where
  \<comment> \<open>The engine error an operation rejected with, if it rejected with one.\<close>
  "engineErrorOf (Inl (EngineError e)) = Some e"
| "engineErrorOf (Inl QueryRunnerAlreadyReleasedError) = None"
| "engineErrorOf (Inl TransactionAlreadyStartedError) = None"
| "engineErrorOf (Inl TransactionNotStartedError) = None"
| "engineErrorOf (Inl (DataTypeNotSupportedByDriverError t d)) = None"
| "engineErrorOf (Inl TypeError) = None"
| "engineErrorOf (Inl (ReleaseError e)) = None"
| "engineErrorOf (Inr x) = None"

definition isInsert :: "string \<Rightarrow> bool" where
  "isInsert q = (take 6 q = ''INSERT'')"

definition tidy :: "(string \<Rightarrow> bool) \<Rightarrow> ('db, 'a) action \<Rightarrow> bool" where
  \<comment> \<open>An action only adds to the log, issues only statements satisfying \<open>P\<close>, issues nothing
      after an engine error, and rejects with the first engine error logged.\<close>
  "tidy P m \<longleftrightarrow>
     (\<forall>r. \<exists>l. logger (snd (m r)) = logger r @ l \<and> list_all P (issued l) \<and>
             noIssueAfterError l \<and> engineErrorOf (fst (m r)) = firstError l)"

section \<open>The rules as the specification words them\<close>

definition spec_autoIncrementColumnName :: "string \<Rightarrow> string option" where
  \<comment> \<open>The specification's rule: from the keyword back to the nearest preceding comma or
      opening parenthesis, whichever is closer, and in that span the name between the
      nearest pair of quotes. \<open>None\<close> when there is no keyword or no such pair.\<close>
  \<open>spec_autoIncrementColumnName tableSql =
     (if indexOf tableSql ''AUTOINCREMENT'' \<noteq> - 1 then
        (let a0 = substr2 tableSql 0 (indexOf tableSql ''AUTOINCREMENT'');
             boundary = max (lastIndexOf a0 '','') (lastIndexOf a0 ''('');
             span = (if boundary \<noteq> - 1 then substr a0 boundary else a0);
             closing = lastIndexOf span ''"'';
             opening = lastIndexOf (substr2 span 0 closing) ''"''
         in if closing \<noteq> - 1 \<and> opening \<noteq> - 1
            then Some (substr2 span (opening + 1) (closing - opening - 1))
            else None)
      else None)\<close>

definition spec_buildCreateColumnSql :: "ColumnSchema \<Rightarrow> error + string" where
  \<comment> \<open>The specification's rule, with the generated clause taking precedence over a plain
      \<^verbatim>\<open>UNIQUE\<close> clause.\<close>
  \<open>spec_buildCreateColumnSql column =
     (case columnTypeSql column of
        Inl e \<Rightarrow> Inl e
      | Inr ty \<Rightarrow>
          Inr (''"'' @ col_name column @ ''" '' @ ty @
               (if col_isNullable column then [] else '' NOT NULL'') @
               (if col_isGenerated column then '' PRIMARY KEY AUTOINCREMENT''
                else if col_isUnique column then '' UNIQUE'' else [])))\<close>

section \<open>Concrete inputs\<close>

definition rowsResult :: "row list \<Rightarrow> sqlresult" where
  "rowsResult xs = \<lparr>res_rows = Some xs, res_insertId = JUndefined\<rparr>"

definition freshRunner :: "unit runner" where
  \<comment> \<open>A runner as its constructor leaves it, on a connection that is not from a pool.\<close>
  "freshRunner =
     \<lparr>isReleased = False, dc_isTransactionActive = False, dc_releaseCallback = None,
      dc_connection = (), logger = []\<rparr>"

definition pooledRunner :: "unit runner" where
  \<comment> \<open>The same on a pooled connection, whose release callback resolves.\<close>
  "pooledRunner = freshRunner\<lparr>dc_releaseCallback := Some None\<rparr>"

definition quietEngine :: "unit engine" where
  \<comment> \<open>An engine on which every statement succeeds with no rows.\<close>
  "quietEngine db q ps = (Inr (rowsResult []), db)"



definition textColumn :: "string \<Rightarrow> ColumnSchema" where
  "textColumn n =
     \<lparr>col_name = n, col_type = ''text'', col_default = JUndefined, col_isNullable = True,
      col_isPrimary = False, col_isUnique = False, col_isGenerated = False, col_comment = [],
      col_metadata = None\<rparr>"

definition idColumn :: ColumnSchema where
  "idColumn =
     \<lparr>col_name = ''id'', col_type = ''integer'', col_default = JUndefined,
      col_isNullable = False, col_isPrimary = True, col_isUnique = False,
      col_isGenerated = True, col_comment = [], col_metadata = None\<rparr>"

definition uniqueIdColumn :: ColumnSchema where
  "uniqueIdColumn = idColumn\<lparr>col_isUnique := True\<rparr>"

definition simpleNaming :: namingStrategy where
  "simpleNaming tableName columnNames referencedTable referencedColumns =
     ''fk_'' @ tableName @ ''_'' @ join ''_'' columnNames"

definition parentKey :: ForeignKeySchema where
  "parentKey =
     \<lparr>fk_name = ''fk_t_p'', fk_columnNames = [''p''], fk_referencedColumnNames = [''id''],
      fk_referencedTableName = ''parent'', fk_onDelete = JUndefined\<rparr>"

definition indexOnA :: IndexSchema where
  "indexOnA =
     \<lparr>idx_tableName = ''t'', idx_name = ''idx_a'', idx_columnNames = [''a''],
      idx_isUnique = True\<rparr>"

definition tableT :: TableSchema where
  \<comment> \<open>\<^verbatim>\<open>t(id, a, p)\<close> with a generated key, a foreign key on \<^verbatim>\<open>p\<close> and an index on \<^verbatim>\<open>a\<close>.\<close>
  "tableT =
     \<lparr>tbl_name = ''t'',
      tbl_columns = [idColumn, textColumn ''a'', textColumn ''p''],
      tbl_indices = [indexOnA],
      tbl_foreignKeys = [parentKey],
      tbl_primaryKeys = []\<rparr>"

definition tableK :: TableSchema where
  \<comment> \<open>\<^verbatim>\<open>k(a, b, c)\<close> with the composite primary key \<^verbatim>\<open>(a, b)\<close>.\<close>
  "tableK =
     \<lparr>tbl_name = ''k'',
      tbl_columns = [(textColumn ''a'')\<lparr>col_isPrimary := True, col_isNullable := False\<rparr>,
                     (textColumn ''b'')\<lparr>col_isPrimary := True, col_isNullable := False\<rparr>,
                     textColumn ''c''],
      tbl_indices = [], tbl_foreignKeys = [], tbl_primaryKeys = []\<rparr>"

definition oldRowEngine :: "unit engine" where
  \<comment> \<open>The table \<^verbatim>\<open>t\<close> holds one row, whose only column \<^verbatim>\<open>z\<close> the target lacks.\<close>
  "oldRowEngine db q ps =
     (if q = probeSql tableT then (Inr (rowsResult [[(''z'', JNum 1)]]), db)
      else (Inr (rowsResult []), db))"

definition sharedRowEngine :: "unit engine" where
  \<comment> \<open>The table \<^verbatim>\<open>t\<close> holds rows with the columns \<^verbatim>\<open>a\<close>, \<^verbatim>\<open>x\<close> and \<^verbatim>\<open>id\<close>, in that order.\<close>
  "sharedRowEngine db q ps =
     (if q = probeSql tableT
      then (Inr (rowsResult [[(''a'', JStr ''u''), (''x'', JNull), (''id'', JNum 1)],
                             [(''a'', JStr ''v''), (''x'', JNull), (''id'', JNum 2)]]), db)
      else (Inr (rowsResult []), db))"


definition catalogEngine :: "unit engine" where
  \<comment> \<open>A catalog with the tables \<^verbatim>\<open>a\<close> and \<^verbatim>\<open>b\<close>; \<^verbatim>\<open>a\<close> has a unique index
      \<^verbatim>\<open>idx_x\<close> on its column \<^verbatim>\<open>x\<close>, made by \<^verbatim>\<open>CREATE UNIQUE INDEX\<close>.\<close>
  \<open>catalogEngine db q ps =
     (if q = tablesSql then
        (Inr (rowsResult
           [[(''type'', JStr ''table''), (''name'', JStr ''a''),
             (''sql'', JStr ''CREATE TABLE "a" ("id" integer NOT NULL PRIMARY KEY AUTOINCREMENT, "x" text)'')],
            [(''type'', JStr ''table''), (''name'', JStr ''b''),
             (''sql'', JStr ''CREATE TABLE "b" ("y" text)'')]]), db)
      else if q = tableInfoSql ''a'' then
        (Inr (rowsResult
           [[(''cid'', JNum 0), (''name'', JStr ''id''), (''type'', JStr ''INTEGER''),
             (''notnull'', JNum 1), (''dflt_value'', JNull), (''pk'', JNum 1)],
            [(''cid'', JNum 1), (''name'', JStr ''x''), (''type'', JStr ''TEXT''),
             (''notnull'', JNum 0), (''dflt_value'', JNull), (''pk'', JNum 0)]]), db)
      else if q = tableInfoSql ''b'' then
        (Inr (rowsResult
           [[(''cid'', JNum 0), (''name'', JStr ''y''), (''type'', JStr ''TEXT''),
             (''notnull'', JNum 0), (''dflt_value'', JNull), (''pk'', JNum 0)]]), db)
      else if q = indexListSql ''a'' then
        (Inr (rowsResult
           [[(''seq'', JNum 0), (''name'', JStr ''idx_x''), (''unique'', JNum 1),
             (''origin'', JStr ''c''), (''partial'', JNum 0)]]), db)
      else if q = indexInfoSql ''idx_x'' then
        (Inr (rowsResult [[(''seqno'', JNum 0), (''cid'', JNum 1), (''name'', JStr ''x'')]]), db)
      else (Inr (rowsResult []), db))\<close>

definition defaultKeySql :: string where
  \<comment> \<open>A creation text whose generated column has a default in parentheses.\<close>
  \<open>defaultKeySql =
     ''CREATE TABLE "t" ("a" text, "id" integer DEFAULT (0) PRIMARY KEY AUTOINCREMENT)''\<close>

definition namedKeySql :: string where
  \<comment> \<open>A creation text whose primary-key constraint has a quoted name.\<close>
  \<open>namedKeySql =
     ''CREATE TABLE "t" ("a" text, "id" integer CONSTRAINT "pk_t" PRIMARY KEY AUTOINCREMENT)''\<close>

section \<open>Observations used by the properties\<close>

definition probeResult :: "'db engine \<Rightarrow> TableSchema \<Rightarrow> 'db runner \<Rightarrow> qout option" where
  \<comment> \<open>What the probe of a recreation resolves with; \<open>None\<close> when the recreation does not
      get to a probe that succeeds.\<close>
  "probeResult E tableSchema r =
     (case stagingSql tableSchema of
        Inl e \<Rightarrow> None
      | Inr sql1 \<Rightarrow>
          (case query E sql1 [] r of
             (Inl e, r1) \<Rightarrow> None
           | (Inr staged, r1) \<Rightarrow>
               (case query E (probeSql tableSchema) [] r1 of
                  (Inl e, r2) \<Rightarrow> None
                | (Inr firstDatas, r2) \<Rightarrow> Some firstDatas)))"

section \<open>Properties\<close>


subsection \<open>The log of an action\<close>

lemma issued_append: "issued (a @ b) = issued a @ issued b"
  by (induction a rule: issued.induct) simp_all

lemma errorsOf_append: "errorsOf (a @ b) = errorsOf a @ errorsOf b"
  by (induction a rule: errorsOf.induct) simp_all

lemma noIssueAfterError_append:
  "noIssueAfterError (a @ b) =
     (if errorsOf a = [] then noIssueAfterError b else noIssueAfterError a \<and> issued b = [])"
  by (induction a rule: noIssueAfterError.induct) (auto simp: issued_append)

lemma firstError_append:
  "firstError (a @ b) = (case firstError a of None \<Rightarrow> firstError b | Some e \<Rightarrow> Some e)"
  by (cases "errorsOf a") (simp_all add: firstError_def errorsOf_append)

lemma firstError_None: "firstError l = None \<longleftrightarrow> errorsOf l = []"
  by (cases "errorsOf l") (simp_all add: firstError_def)

lemma quiet_noIssueAfterError: "issued l = [] \<Longrightarrow> noIssueAfterError l"
  by (induction l rule: noIssueAfterError.induct) simp_all

lemma issued_LogQuery: "issued (map (\<lambda>q. LogQuery q []) qs) = qs"
  by (induction qs) simp_all

lemma errorsOf_LogQuery: "errorsOf (map (\<lambda>q. LogQuery q []) qs) = []"
  by (induction qs) simp_all

lemma firstError_LogQuery: "firstError (map (\<lambda>q. LogQuery q []) qs) = None"
  by (simp add: firstError_def errorsOf_LogQuery)

lemma engineErrorOf_Inl:
  "engineErrorOf (Inl e) = (case e of EngineError x \<Rightarrow> Some x | _ \<Rightarrow> None)"
  by (cases e) simp_all

lemma tidyI:
  assumes "\<And>r. \<exists>l. logger (snd (m r)) = logger r @ l \<and> list_all P (issued l) \<and>
             noIssueAfterError l \<and> engineErrorOf (fst (m r)) = firstError l"
  shows "tidy P m"
  using assms by (simp add: tidy_def)

lemma tidyD:
  assumes "tidy P m"
  obtains l where "logger (snd (m r)) = logger r @ l" "list_all P (issued l)"
    "noIssueAfterError l" "engineErrorOf (fst (m r)) = firstError l"
  using assms unfolding tidy_def by blast

lemma tidy_resolve: "tidy P (resolve x)"
  by (rule tidyI) (simp add: resolve_def firstError_def)


lemma tidy_query: "P q \<Longrightarrow> tidy P (query E q ps)"
  by (rule tidyI) (simp add: query_def firstError_def Let_def split: prod.splits sum.splits)

lemma tidy_await:
  assumes m: "tidy P m" and f: "\<And>x. tidy P (f x)"
  shows "tidy P (await m f)"
proof (rule tidyI)
  fix r
  obtain l1 where l1: "logger (snd (m r)) = logger r @ l1" "list_all P (issued l1)"
    "noIssueAfterError l1" "engineErrorOf (fst (m r)) = firstError l1"
    using m by (rule tidyD)
  show "\<exists>l. logger (snd (await m f r)) = logger r @ l \<and> list_all P (issued l) \<and>
             noIssueAfterError l \<and> engineErrorOf (fst (await m f r)) = firstError l"
  proof (cases "fst (m r)")
    case (Inl e)
    then have "await m f r = (Inl e, snd (m r))"
      by (cases "m r") (simp add: await_def)
    with l1 Inl show ?thesis by (auto simp: engineErrorOf_Inl)
  next
    case (Inr x)
    then have step: "await m f r = f x (snd (m r))"
      by (cases "m r") (simp add: await_def)
    from Inr l1 have clean: "errorsOf l1 = []"
      by (simp add: firstError_None [symmetric])
    obtain l2 where l2: "logger (snd (f x (snd (m r)))) = logger (snd (m r)) @ l2"
      "list_all P (issued l2)" "noIssueAfterError l2"
      "engineErrorOf (fst (f x (snd (m r)))) = firstError l2"
      using f by (rule tidyD)
    have "logger (snd (await m f r)) = logger r @ (l1 @ l2)"
      using step l1 l2 by simp
    moreover have "list_all P (issued (l1 @ l2))"
      using l1 l2 by (simp add: issued_append)
    moreover have "noIssueAfterError (l1 @ l2)"
      using clean l2 by (simp add: noIssueAfterError_append)
    moreover have "engineErrorOf (fst (await m f r)) = firstError (l1 @ l2)"
      using step l2 clean by (simp add: firstError_def errorsOf_append)
    ultimately show ?thesis by blast
  qed
qed

lemma engineErrorOf_promiseAll_Inr:
  "engineErrorOf (case p of Inl e \<Rightarrow> Inl e | Inr xs \<Rightarrow> Inr (f xs)) = engineErrorOf p"
  by (cases p rule: engineErrorOf.cases) simp_all

lemma executeAll_log:
  "\<exists>l. logger (snd (executeAll E qs r)) = logger r @ l \<and> issued l = [] \<and>
       firstError l = engineErrorOf (promiseAll (fst (executeAll E qs r)))"
proof (induction qs arbitrary: r)
  case Nil
  show ?case by (simp add: firstError_def)
next
  case (Cons q qs)
  show ?case
  proof (cases "E (dc_connection r) q []")
    case (Pair res db)
    show ?thesis
    proof (cases res)
      case (Inl err)
      let ?r1 = "r\<lparr>dc_connection := db, logger := logger r @ [LogFailedQuery q [], LogQueryError err]\<rparr>"
      obtain l where l: "logger (snd (executeAll E qs ?r1)) = logger ?r1 @ l" "issued l = []"
        using Cons.IH [of ?r1] by blast
      have "logger (snd (executeAll E (q # qs) r))
              = logger r @ ([LogFailedQuery q [], LogQueryError err] @ l)"
        using Pair Inl l by (cases "executeAll E qs ?r1") simp
      moreover have "issued ([LogFailedQuery q [], LogQueryError err] @ l) = []"
        using l by simp
      moreover have "firstError ([LogFailedQuery q [], LogQueryError err] @ l)
              = engineErrorOf (promiseAll (fst (executeAll E (q # qs) r)))"
        using Pair Inl by (cases "executeAll E qs ?r1") (simp add: firstError_def)
      ultimately show ?thesis by blast
    next
      case (Inr result)
      let ?r1 = "r\<lparr>dc_connection := db\<rparr>"
      obtain l where l: "logger (snd (executeAll E qs ?r1)) = logger ?r1 @ l" "issued l = []"
        "firstError l = engineErrorOf (promiseAll (fst (executeAll E qs ?r1)))"
        using Cons.IH [of ?r1] by blast
      have "logger (snd (executeAll E (q # qs) r)) = logger r @ l"
        using Pair Inr l by (cases "executeAll E qs ?r1") simp
      moreover have "firstError l = engineErrorOf (promiseAll (fst (executeAll E (q # qs) r)))"
        using Pair Inr l
        by (cases "executeAll E qs ?r1") (simp add: engineErrorOf_promiseAll_Inr)
      ultimately show ?thesis using l by blast
    qed
  qed
qed

lemma promiseAll_released:
  "engineErrorOf (promiseAll (map (\<lambda>q. Inl QueryRunnerAlreadyReleasedError) qs)) = None"
  by (cases qs) simp_all

lemma issueAll_log:
  "\<exists>l. logger (snd (issueAll E qs r)) = logger r @ l \<and> issued l = (if isReleased r then [] else qs) \<and>
       noIssueAfterError l \<and> firstError l = engineErrorOf (promiseAll (fst (issueAll E qs r)))"
proof (cases "isReleased r")
  case True
  then show ?thesis
    by (simp add: issueAll_def promiseAll_released firstError_def)
next
  case False
  let ?r1 = "r\<lparr>logger := logger r @ map (\<lambda>q. LogQuery q []) qs\<rparr>"
  obtain l where l: "logger (snd (executeAll E qs ?r1)) = logger ?r1 @ l" "issued l = []"
    "firstError l = engineErrorOf (promiseAll (fst (executeAll E qs ?r1)))"
    using executeAll_log [of E qs ?r1] by blast
  let ?l = "map (\<lambda>q. LogQuery q []) qs @ l"
  have "logger (snd (issueAll E qs r)) = logger r @ ?l"
    using False l by (simp add: issueAll_def)
  moreover have "issued ?l = qs"
    using l by (simp add: issued_append issued_LogQuery)
  moreover have "noIssueAfterError ?l"
    using l by (simp add: noIssueAfterError_append errorsOf_LogQuery quiet_noIssueAfterError)
  moreover have "firstError ?l = engineErrorOf (promiseAll (fst (issueAll E qs r)))"
    using False l
    by (simp add: issueAll_def firstError_append firstError_LogQuery)
  ultimately show ?thesis using False by auto
qed

lemma issueAll_one: "fst (issueAll E [q] r) = [fst (query E q [] r)] \<and>
   snd (issueAll E [q] r) = snd (query E q [] r)"
  by (simp add: issueAll_def query_def Let_def split: prod.splits sum.splits)

lemma rebuildIndices_one_index:
  "tbl_indices tableSchema = [index] \<Longrightarrow>
     rebuildIndices E tableSchema r = createIndex E index r"
  by (simp add: rebuildIndices_def createIndex_def issueAll_def query_def await_def resolve_def
      Let_def split: prod.splits sum.splits)

lemma tidy_rebuildIndices:
  assumes "list_all P (map createIndexSql (tbl_indices tableSchema))"
  shows "tidy P (rebuildIndices E tableSchema)"
proof (rule tidyI)
  fix r
  let ?qs = "map createIndexSql (tbl_indices tableSchema)"
  obtain l where l: "logger (snd (issueAll E ?qs r)) = logger r @ l"
    "issued l = (if isReleased r then [] else ?qs)" "noIssueAfterError l"
    "firstError l = engineErrorOf (promiseAll (fst (issueAll E ?qs r)))"
    using issueAll_log [of E ?qs r] by blast
  have res: "engineErrorOf (fst (rebuildIndices E tableSchema r))
           = engineErrorOf (promiseAll (fst (issueAll E ?qs r)))"
    by (cases "issueAll E ?qs r"; cases "promiseAll (fst (issueAll E ?qs r))" rule: engineErrorOf.cases)
       (simp_all add: rebuildIndices_def)
  have "logger (snd (rebuildIndices E tableSchema r)) = logger r @ l"
    using l by (cases "issueAll E ?qs r") (simp add: rebuildIndices_def split: sum.splits)
  moreover have "list_all P (issued l)"
    using l assms by (simp split: if_splits)
  ultimately show "\<exists>l. logger (snd (rebuildIndices E tableSchema r)) = logger r @ l \<and>
      list_all P (issued l) \<and> noIssueAfterError l \<and>
      engineErrorOf (fst (rebuildIndices E tableSchema r)) = firstError l"
    using l res by auto
qed


lemma tidy_weaken: "tidy P m \<Longrightarrow> (\<And>q. P q \<Longrightarrow> Q q) \<Longrightarrow> tidy Q m"
  unfolding tidy_def list_all_iff by blast

lemma tidy_entries:
  assumes "tidy P m"
  shows "logger (snd (m r)) = logger r @ entries r (snd (m r))"
    and "list_all P (issued (entries r (snd (m r))))"
    and "noIssueAfterError (entries r (snd (m r)))"
    and "engineErrorOf (fst (m r)) = firstError (entries r (snd (m r)))"
proof -
  obtain l where l: "logger (snd (m r)) = logger r @ l" "list_all P (issued l)"
    "noIssueAfterError l" "engineErrorOf (fst (m r)) = firstError l"
    using assms by (rule tidyD)
  then have "entries r (snd (m r)) = l" by (simp add: entries_def)
  with l show "logger (snd (m r)) = logger r @ entries r (snd (m r))"
    and "list_all P (issued (entries r (snd (m r))))"
    and "noIssueAfterError (entries r (snd (m r)))"
    and "engineErrorOf (fst (m r)) = firstError (entries r (snd (m r)))"
    by simp_all
qed

lemma entries_trans:
  "logger r1 = logger r @ l1 \<Longrightarrow> logger r2 = logger r1 @ l2 \<Longrightarrow> entries r r2 = l1 @ l2"
  by (simp add: entries_def)

lemma entries_self: "entries r r = []"
  by (simp add: entries_def)

subsection \<open>Statement failures\<close>





lemma tidy_copyData:
  assumes "\<And>firstData. P (copySql tableSchema firstData)"
  shows "tidy P (copyData E tableSchema firstDatas)"
proof (cases firstDatas)
  case (Rows rs)
  then show ?thesis
    by (cases rs) (simp_all add: copyData_def tidy_resolve tidy_await tidy_query assms)
next
  case (Raw result)
  then show ?thesis by (simp add: copyData_def tidy_resolve)
qed

lemma tidy_swap:
  assumes "P (dropSql tableSchema)" "P (renameSql tableSchema)"
    "list_all P (map createIndexSql (tbl_indices tableSchema))"
  shows "tidy P (await (query E (dropSql tableSchema) []) (\<lambda>_.
           await (query E (renameSql tableSchema) []) (\<lambda>_. rebuildIndices E tableSchema)))"
  by (intro tidy_await tidy_query tidy_rebuildIndices assms)





lemma recreateTable_stops_at_failing_step:
  assumes "stagingSql tableSchema = Inr sql1"
  shows "query E sql1 [] r = (Inl e, r1) \<Longrightarrow> recreateTable E tableSchema r = (Inl e, r1)"
    and "query E sql1 [] r = (Inr staged, r1) \<Longrightarrow>
         query E (probeSql tableSchema) [] r1 = (Inl e, r2) \<Longrightarrow>
         recreateTable E tableSchema r = (Inl e, r2)"
    and "query E sql1 [] r = (Inr staged, r1) \<Longrightarrow>
         query E (probeSql tableSchema) [] r1 = (Inr (Rows (firstData # others)), r2) \<Longrightarrow>
         query E (copySql tableSchema firstData) [] r2 = (Inl e, r3) \<Longrightarrow>
         recreateTable E tableSchema r = (Inl e, r3)"
    and "query E sql1 [] r = (Inr staged, r1) \<Longrightarrow>
         query E (probeSql tableSchema) [] r1 = (Inr firstDatas, r2) \<Longrightarrow>
         copyData E tableSchema firstDatas r2 = (Inr (), r3) \<Longrightarrow>
         query E (dropSql tableSchema) [] r3 = (Inl e, r4) \<Longrightarrow>
         recreateTable E tableSchema r = (Inl e, r4)"
    and "query E sql1 [] r = (Inr staged, r1) \<Longrightarrow>
         query E (probeSql tableSchema) [] r1 = (Inr firstDatas, r2) \<Longrightarrow>
         copyData E tableSchema firstDatas r2 = (Inr (), r3) \<Longrightarrow>
         query E (dropSql tableSchema) [] r3 = (Inr dropped, r4) \<Longrightarrow>
         query E (renameSql tableSchema) [] r4 = (Inl e, r5) \<Longrightarrow>
         recreateTable E tableSchema r = (Inl e, r5)"
    and "query E sql1 [] r = (Inr staged, r1) \<Longrightarrow>
         query E (probeSql tableSchema) [] r1 = (Inr firstDatas, r2) \<Longrightarrow>
         copyData E tableSchema firstDatas r2 = (Inr (), r3) \<Longrightarrow>
         query E (dropSql tableSchema) [] r3 = (Inr dropped, r4) \<Longrightarrow>
         query E (renameSql tableSchema) [] r4 = (Inr renamed, r5) \<Longrightarrow>
         recreateTable E tableSchema r = rebuildIndices E tableSchema r5"
  using assms by (simp_all add: recreateTable_def await_def copyData_def)

lemma failing_statement_rejects_and_is_logged:
  assumes "\<not> isReleased r" and "E (dc_connection r) q ps = (Inl err, db)"
  shows "fst (query E q ps r) = Inl (EngineError err)"
    and "entries r (snd (query E q ps r)) =
           [LogQuery q ps, LogFailedQuery q ps, LogQueryError err]"
    and "dc_connection (snd (query E q ps r)) = db"
  using assms by (simp_all add: query_def entries_def)

lemma failing_index_statement_is_logged:
  assumes "E (dc_connection r) q [] = (Inl err, db)"
  shows "\<exists>outs l. fst (executeAll E (q # qs) r) = Inl (EngineError err) # outs \<and>
           logger (snd (executeAll E (q # qs) r))
             = logger r @ LogFailedQuery q [] # LogQueryError err # l"
proof -
  let ?r1 = "r\<lparr>dc_connection := db,
                logger := logger r @ [LogFailedQuery q [], LogQueryError err]\<rparr>"
  obtain l where "logger (snd (executeAll E qs ?r1)) = logger ?r1 @ l"
    using executeAll_log [of E qs ?r1] by blast
  then show ?thesis
    using assms by (cases "executeAll E qs ?r1") simp
qed

subsection \<open>The data copy of a recreation\<close>

lemma query_Inr:
  "query E q ps r = (Inr out, r') \<Longrightarrow> \<not> isReleased r' \<and> logger r' = logger r @ [LogQuery q ps]"
  by (auto simp: query_def Let_def split: if_splits prod.splits sum.splits)

lemma query_Inl:
  "query E q ps r = (Inl e, r') \<Longrightarrow>
     \<exists>l. logger r' = logger r @ l \<and> (issued l = [] \<or> issued l = [q]) \<and>
         (\<not> isReleased r \<longrightarrow> issued l = [q])"
  by (auto simp: query_def Let_def split: if_splits prod.splits sum.splits)

lemma isInsert_copySql: "isInsert (copySql tableSchema firstData)"
  by (simp add: isInsert_def copySql_def Let_def)

lemma addForeignKeyClause_append:
  "addForeignKeyClause sql1 foreignKey = sql1 @ addForeignKeyClause [] foreignKey"
  by (simp add: addForeignKeyClause_def Let_def)

lemma foldl_addForeignKeyClause:
  "foldl addForeignKeyClause sql1 foreignKeys
     = sql1 @ concat (map (addForeignKeyClause []) foreignKeys)"
proof (induction foreignKeys arbitrary: sql1)
  case Nil
  show ?case by simp
next
  case (Cons foreignKey foreignKeys)
  show ?case
    using Cons.IH [of "addForeignKeyClause sql1 foreignKey"]
      addForeignKeyClause_append [of sql1 foreignKey]
    by simp
qed

lemma not_isInsert_stagingSql: "stagingSql tableSchema = Inr sql1 \<Longrightarrow> \<not> isInsert sql1"
  by (auto simp: isInsert_def stagingSql_def Let_def foldl_addForeignKeyClause
      split: sum.splits if_splits)

lemma not_isInsert_others:
  "\<not> isInsert (probeSql tableSchema)" "\<not> isInsert (dropSql tableSchema)"
  "\<not> isInsert (renameSql tableSchema)" "\<not> isInsert (createIndexSql index)"
  by (simp_all add: isInsert_def probeSql_def dropSql_def renameSql_def createIndexSql_def Let_def)

lemma swap_no_insert:
  fixes E :: "'db engine"
  defines "swap tableSchema \<equiv> await (query E (dropSql tableSchema) []) (\<lambda>_.
           await (query E (renameSql tableSchema) []) (\<lambda>_. rebuildIndices E tableSchema))"
  shows "logger (snd (swap tableSchema r)) = logger r @ entries r (snd (swap tableSchema r)) \<and>
         filter isInsert (issued (entries r (snd (swap tableSchema r)))) = []"
proof -
  have "tidy (\<lambda>q. \<not> isInsert q) (swap tableSchema)"
    unfolding swap_def
    by (rule tidy_swap) (simp_all add: not_isInsert_others list_all_iff)
  from tidy_entries(1,2) [OF this, of r] show ?thesis
    by (simp add: list_all_iff filter_empty_conv)
qed

lemma copy_then_swap:
  fixes E :: "'db engine"
  defines "rest tableSchema firstDatas \<equiv>
    await (copyData E tableSchema firstDatas) (\<lambda>_.
      await (query E (dropSql tableSchema) []) (\<lambda>_.
      await (query E (renameSql tableSchema) []) (\<lambda>_. rebuildIndices E tableSchema)))"
  assumes live: "\<not> isReleased r"
  shows "\<exists>l. logger (snd (rest tableSchema firstDatas r)) = logger r @ l \<and>
     filter isInsert (issued l) =
       (case firstDatas of
          Rows (firstData # others) \<Rightarrow> [copySql tableSchema firstData]
        | _ \<Rightarrow> [])"
proof -
  let ?swap = "await (query E (dropSql tableSchema) []) (\<lambda>_.
      await (query E (renameSql tableSchema) []) (\<lambda>_. rebuildIndices E tableSchema))"
  have swap: "\<And>r'. logger (snd (?swap r')) = logger r' @ entries r' (snd (?swap r')) \<and>
         filter isInsert (issued (entries r' (snd (?swap r')))) = []"
    by (rule swap_no_insert)
  have skip: ?thesis if "copyData E tableSchema firstDatas = resolve ()"
    and "(case firstDatas of Rows (firstData # others) \<Rightarrow> [copySql tableSchema firstData] | _ \<Rightarrow> []) = []"
  proof -
    have "rest tableSchema firstDatas r = ?swap r"
      using that by (simp add: rest_def await_def resolve_def)
    with swap [of r] that show ?thesis by metis
  qed
  show ?thesis
  proof (cases firstDatas)
    case (Raw result)
    then show ?thesis by (intro skip) (simp_all add: copyData_def)
  next
    case (Rows rs)
    show ?thesis
    proof (cases rs)
      case Nil
      with Rows show ?thesis by (intro skip) (simp_all add: copyData_def)
    next
      case (Cons firstData others)
      let ?copy = "copySql tableSchema firstData"
      obtain res r3 where q3: "query E ?copy [] r = (res, r3)"
        by (cases "query E ?copy [] r")
      show ?thesis
      proof (cases res)
        case (Inl e)
        with q3 have "rest tableSchema firstDatas r = (Inl e, r3)"
          using Rows Cons by (simp add: rest_def copyData_def await_def)
        moreover obtain l where "logger r3 = logger r @ l" "issued l = [?copy]"
          using query_Inl [of E ?copy "[]" r e r3] q3 Inl live by blast
        ultimately show ?thesis
          using Rows Cons by (simp add: isInsert_copySql)
      next
        case (Inr out)
        with q3 have step: "rest tableSchema firstDatas r = ?swap r3"
          using Rows Cons by (simp add: rest_def copyData_def await_def resolve_def)
        have l3: "logger r3 = logger r @ [LogQuery ?copy []]"
          using query_Inr [of E ?copy "[]" r out r3] q3 Inr by simp
        have "logger (snd (rest tableSchema firstDatas r))
                = logger r @ ([LogQuery ?copy []] @ entries r3 (snd (?swap r3)))"
          using step l3 swap [of r3] by simp
        moreover have "filter isInsert (issued ([LogQuery ?copy []] @ entries r3 (snd (?swap r3))))
                = [?copy]"
          using swap [of r3] by (simp add: isInsert_copySql)
        ultimately show ?thesis
          using Rows Cons by (metis list.simps(5) qout.simps(5))
      qed
    qed
  qed
qed

lemma indexOf_list_from_member:
  "0 \<le> indexOf_list_from i xs x \<longleftrightarrow> x \<in> set xs"
  by (induction xs arbitrary: i) auto

lemma copySql_shared_columns:
  \<open>copySql tableSchema firstData =
     (let shared = filter (\<lambda>x. x \<in> set (map col_name (tbl_columns tableSchema))) (keys firstData)
      in ''INSERT INTO "temporary_'' @ tbl_name tableSchema @ ''" ('' @ join '', '' shared @
         '') SELECT '' @ join '', '' (map (\<lambda>x. ''"'' @ x @ ''"'') shared) @
         '' FROM "'' @ tbl_name tableSchema @ ''"'')\<close>
  by (simp add: copySql_def Let_def indexOf_list_def indexOf_list_from_member)

lemma inserts_of_recreateTable:
  "filter isInsert (issued (entries r (snd (recreateTable E tableSchema r)))) =
     (case probeResult E tableSchema r of
        Some (Rows (firstData # others)) \<Rightarrow> [copySql tableSchema firstData]
      | _ \<Rightarrow> [])"
proof (cases "stagingSql tableSchema")
  case (Inl e)
  then show ?thesis
    by (simp add: recreateTable_def throw_def probeResult_def entries_self)
next
  case (Inr sql1)
  note ns = not_isInsert_stagingSql [OF Inr]
  obtain res1 r1 where q1: "query E sql1 [] r = (res1, r1)"
    by (cases "query E sql1 [] r")
  show ?thesis
  proof (cases res1)
    case (Inl e)
    with q1 Inr have "recreateTable E tableSchema r = (Inl e, r1)"
      by (simp add: recreateTable_def await_def)
    moreover obtain l where "logger r1 = logger r @ l" "issued l = [] \<or> issued l = [sql1]"
      using query_Inl [of E sql1 "[]" r e r1] q1 Inl by blast
    moreover from this have "entries r r1 = l" by (simp add: entries_def)
    ultimately show ?thesis
      using Inr q1 Inl ns by (auto simp: probeResult_def)
  next
    case staged: (Inr out1)
    have l1: "logger r1 = logger r @ [LogQuery sql1 []]" and live1: "\<not> isReleased r1"
      using query_Inr [of E sql1 "[]" r out1 r1] q1 staged by simp_all
    obtain res2 r2 where q2: "query E (probeSql tableSchema) [] r1 = (res2, r2)"
      by (cases "query E (probeSql tableSchema) [] r1")
    show ?thesis
    proof (cases res2)
      case (Inl e)
      with q1 q2 Inr staged have "recreateTable E tableSchema r = (Inl e, r2)"
        by (simp add: recreateTable_def await_def)
      moreover obtain l where l: "logger r2 = logger r1 @ l" "issued l = [probeSql tableSchema]"
        using query_Inl [of E "probeSql tableSchema" "[]" r1 e r2] q2 Inl live1 by blast
      moreover from l l1 have "entries r r2 = [LogQuery sql1 []] @ l" by (simp add: entries_def)
      ultimately show ?thesis
        using Inr q1 q2 staged Inl ns by (simp add: probeResult_def not_isInsert_others)
    next
      case probed: (Inr firstDatas)
      have l2: "logger r2 = logger r1 @ [LogQuery (probeSql tableSchema) []]"
        and live2: "\<not> isReleased r2"
        using query_Inr [of E "probeSql tableSchema" "[]" r1 firstDatas r2] q2 probed by simp_all
      let ?rest = "await (copyData E tableSchema firstDatas) (\<lambda>_.
          await (query E (dropSql tableSchema) []) (\<lambda>_.
          await (query E (renameSql tableSchema) []) (\<lambda>_. rebuildIndices E tableSchema)))"
      have step: "recreateTable E tableSchema r = ?rest r2"
        using Inr q1 q2 staged probed by (simp add: recreateTable_def await_def)
      obtain l where l: "logger (snd (?rest r2)) = logger r2 @ l"
        "filter isInsert (issued l) =
           (case firstDatas of
              Rows (firstData # others) \<Rightarrow> [copySql tableSchema firstData]
            | _ \<Rightarrow> [])"
        using copy_then_swap [OF live2, of E tableSchema firstDatas] by blast
      have "entries r (snd (recreateTable E tableSchema r))
              = [LogQuery sql1 [], LogQuery (probeSql tableSchema) []] @ l"
        using step l l1 l2 by (simp add: entries_def)
      moreover have "probeResult E tableSchema r = Some firstDatas"
        using Inr q1 q2 staged probed by (simp add: probeResult_def)
      ultimately show ?thesis
        using l ns by (simp add: not_isInsert_others)
    qed
  qed
qed


text \<open>
  What the code does for the data copy. An \<^verbatim>\<open>INSERT\<close> is issued exactly when the probe
  returns at least one row, and then once; its columns are the names of the first row that
  the target declares, in the order of the row, bare on the insert side and quoted on the
  select side. When the probe returns no row, or the recreation does not get to a probe
  that succeeds, no \<^verbatim>\<open>INSERT\<close> is issued.
\<close>

lemma copy_statement_follows_probe:
  \<open>filter isInsert (issued (entries r (snd (recreateTable E tableSchema r)))) =
     (case probeResult E tableSchema r of
        Some (Rows (firstData # others)) \<Rightarrow> [copySql tableSchema firstData]
      | _ \<Rightarrow> []) \<and>
   copySql tableSchema firstRow =
     (let shared = filter (\<lambda>x. x \<in> set (map col_name (tbl_columns tableSchema))) (keys firstRow)
      in ''INSERT INTO "temporary_'' @ tbl_name tableSchema @ ''" ('' @ join '', '' shared @
         '') SELECT '' @ join '', '' (map (\<lambda>x. ''"'' @ x @ ''"'') shared) @
         '' FROM "'' @ tbl_name tableSchema @ ''"'')\<close>
  using inserts_of_recreateTable [of r E tableSchema] copySql_shared_columns [of tableSchema firstRow]
  by simp

lemma copy_statement_follows_probe_examples:
  \<open>probeResult sharedRowEngine tableT freshRunner =
     Some (Rows [[(''a'', JStr ''u''), (''x'', JNull), (''id'', JNum 1)],
                 [(''a'', JStr ''v''), (''x'', JNull), (''id'', JNum 2)]]) \<and>
   filter isInsert (issued (entries freshRunner (snd (recreateTable sharedRowEngine tableT freshRunner))))
     = [''INSERT INTO "temporary_t" (a, id) SELECT "a", "id" FROM "t"''] \<and>
   probeResult quietEngine tableT freshRunner = Some (Rows []) \<and>
   filter isInsert (issued (entries freshRunner (snd (recreateTable quietEngine tableT freshRunner))))
     = []\<close>
proof -
  have p1: \<open>probeResult sharedRowEngine tableT freshRunner =
     Some (Rows [[(''a'', JStr ''u''), (''x'', JNull), (''id'', JNum 1)],
                 [(''a'', JStr ''v''), (''x'', JNull), (''id'', JNum 2)]])\<close>
    by code_simp
  have c1: \<open>copySql tableT [(''a'', JStr ''u''), (''x'', JNull), (''id'', JNum 1)]
      = ''INSERT INTO "temporary_t" (a, id) SELECT "a", "id" FROM "t"''\<close>
    by code_simp
  have p2: "probeResult quietEngine tableT freshRunner = Some (Rows [])"
    by code_simp
  show ?thesis
    using p1 c1 p2
      copy_statement_follows_probe [of freshRunner sharedRowEngine tableT]
      copy_statement_follows_probe [of freshRunner quietEngine tableT]
    by simp
qed

text \<open>
  Claim C1 fails on the code. The table holds one row whose only column the target does not
  declare, so the intersection is empty; lines 586-596 test only that the probe returned a
  row and issue the \<^verbatim>\<open>INSERT\<close> with two empty column lists, which SQLite refuses as
  a syntax error, where the claim says that no \<^verbatim>\<open>INSERT\<close> is issued.
\<close>

theorem copy_statement_issued_on_empty_intersection:
  \<open>probeResult oldRowEngine tableT freshRunner = Some (Rows [[(''z'', JNum 1)]]) \<and>
   filter (\<lambda>x. x \<in> set (map col_name (tbl_columns tableT))) (keys [(''z'', JNum 1)]) = [] \<and>
   issued (logger (snd (recreateTable oldRowEngine tableT freshRunner))) =
     [''CREATE TABLE "temporary_t" ("id" integer NOT NULL PRIMARY KEY AUTOINCREMENT, "a" text, "p" text, FOREIGN KEY("p") REFERENCES "parent"("id"))'',
      ''SELECT * FROM "t"'',
      ''INSERT INTO "temporary_t" () SELECT  FROM "t"'',
      ''DROP TABLE "t"'',
      ''ALTER TABLE "temporary_t" RENAME TO "t"'',
      ''CREATE UNIQUE INDEX "idx_a" ON "t"("a")'']\<close>
  by code_simp

subsection \<open>Operations that recreate the table as given\<close>

text \<open>
  Claim C10. The second argument of \<^verbatim>\<open>createColumns\<close> and of \<^verbatim>\<open>changeColumns\<close> has no
  effect: any two values give the same result and the same final state of the runner, which
  are those of the recreation of the table descriptor as it was passed (or the
  already-released error on a released runner).
\<close>

theorem createColumns_ignores_columns:
  "createColumns E tableSchema columns1 r = createColumns E tableSchema columns2 r \<and>
   changeColumns E tableSchema changed1 r = changeColumns E tableSchema changed2 r \<and>
   createColumns E tableSchema columns1 r =
     (if isReleased r then (Inl QueryRunnerAlreadyReleasedError, r)
      else recreateTable E tableSchema r) \<and>
   changeColumns E tableSchema changed1 r =
     (if isReleased r then (Inl QueryRunnerAlreadyReleasedError, r)
      else recreateTable E tableSchema r)"
  by (simp add: createColumns_def changeColumns_def)

theorem createColumns_ignores_columns_witness:
  "createColumns quietEngine tableT [textColumn ''n''] freshRunner =
     createColumns quietEngine tableT [] freshRunner \<and>
   changeColumns quietEngine tableT [(textColumn ''n'', textColumn ''a'')] freshRunner =
     changeColumns quietEngine tableT [] freshRunner \<and>
   createColumns quietEngine tableT [textColumn ''n''] freshRunner =
     recreateTable quietEngine tableT freshRunner \<and>
   changeColumns quietEngine tableT [(textColumn ''n'', textColumn ''a'')] freshRunner =
     recreateTable quietEngine tableT freshRunner"
proof -
  have live: "isReleased freshRunner = False" by (simp add: freshRunner_def)
  show ?thesis
    by (rule createColumns_ignores_columns [of quietEngine tableT "[textColumn ''n'']" freshRunner
          "[]" "[(textColumn ''n'', textColumn ''a'')]" "[]", unfolded live if_False])
qed

subsection \<open>Column and table statements\<close>

text \<open>
  Claim C5, as amended. The column definition is a function of the column alone: the quoted
  name, the type, \<^verbatim>\<open>NOT NULL\<close> unless the column is nullable, \<^verbatim>\<open>UNIQUE\<close> if the column is
  unique, \<^verbatim>\<open>PRIMARY KEY AUTOINCREMENT\<close> if it is generated. The last two clauses are
  independent of each other, so a column that is unique and generated gets both; the
  primary-key flag of the column plays no part.
\<close>

theorem buildCreateColumnSql_clauses:
  \<open>buildCreateColumnSql column =
     (case columnTypeSql column of
        Inl e \<Rightarrow> Inl e
      | Inr ty \<Rightarrow>
          Inr (''"'' @ col_name column @ ''"'' @ '' '' @ ty @
               (if col_isNullable column then [] else '' NOT NULL'') @
               (if col_isUnique column then '' UNIQUE'' else []) @
               (if col_isGenerated column then '' PRIMARY KEY AUTOINCREMENT'' else []))) \<and>
   buildCreateColumnSql (column\<lparr>col_isPrimary := primary\<rparr>) = buildCreateColumnSql column\<close>
  by (simp add: buildCreateColumnSql_def columnTypeSql_def Let_def split: sum.splits option.splits)

theorem buildCreateColumnSql_clauses_witness:
  \<open>buildCreateColumnSql uniqueIdColumn =
     Inr ''"id" integer NOT NULL UNIQUE PRIMARY KEY AUTOINCREMENT'' \<and>
   buildCreateColumnSql (uniqueIdColumn\<lparr>col_isPrimary := False\<rparr>) =
     buildCreateColumnSql uniqueIdColumn\<close>
proof -
  have "columnTypeSql uniqueIdColumn = Inr ''integer''"
    by (simp add: columnTypeSql_def uniqueIdColumn_def idColumn_def)
  moreover have "col_name uniqueIdColumn = ''id''" "\<not> col_isNullable uniqueIdColumn"
    "col_isUnique uniqueIdColumn" "col_isGenerated uniqueIdColumn"
    by (simp_all add: uniqueIdColumn_def idColumn_def)
  ultimately show ?thesis
    using buildCreateColumnSql_clauses [of uniqueIdColumn False] by simp
qed

text \<open>
  Claim C5 as stated fails: for a column that is both unique and generated the generated
  clause does not take precedence over \<^verbatim>\<open>UNIQUE\<close>; the runner writes both.
\<close>

theorem buildCreateColumnSql_precedence_counterexample:
  \<open>col_isUnique uniqueIdColumn \<and> col_isGenerated uniqueIdColumn \<and>
   buildCreateColumnSql uniqueIdColumn =
     Inr ''"id" integer NOT NULL UNIQUE PRIMARY KEY AUTOINCREMENT'' \<and>
   spec_buildCreateColumnSql uniqueIdColumn =
     Inr ''"id" integer NOT NULL PRIMARY KEY AUTOINCREMENT''\<close>
  by code_simp


lemma query_first_entry:
  assumes "\<not> isReleased r" and "\<And>x. tidy P (f x)"
  shows "\<exists>l. logger (snd (await (query E q ps) f r)) = logger r @ LogQuery q ps # l"
proof -
  obtain res r1 where q1: "query E q ps r = (res, r1)"
    by (cases "query E q ps r")
  show ?thesis
  proof (cases res)
    case (Inl e)
    with q1 assms(1) show ?thesis
      by (auto simp: await_def query_def Let_def split: prod.splits sum.splits)
  next
    case (Inr out)
    with q1 have "logger r1 = logger r @ [LogQuery q ps]"
      using query_Inr [of E q ps r out r1] by simp
    moreover have "await (query E q ps) f r = f out r1"
      using q1 Inr by (simp add: await_def)
    moreover obtain l where "logger (snd (f out r1)) = logger r1 @ l"
      using assms(2) [of out] by (rule tidyD)
    ultimately show ?thesis by simp
  qed
qed

lemma recreateTable_first_statement:
  assumes "\<not> isReleased r" and "stagingSql tableSchema = Inr sql1"
  shows "take 1 (issued (entries r (snd (recreateTable E tableSchema r)))) = [sql1]"
proof -
  have "\<exists>l. logger (snd (recreateTable E tableSchema r)) = logger r @ LogQuery sql1 [] # l"
    unfolding recreateTable_def using assms
    by (auto intro!: query_first_entry [where P = "\<lambda>q. True"] tidy_await tidy_query tidy_copyData
        tidy_rebuildIndices simp: list_all_iff)
  then show ?thesis by (auto simp: entries_def)
qed

lemma createTable_statement:
  assumes "\<not> isReleased r" and "createTableSql table = Inr sql"
  shows "issued (entries r (snd (createTable E table r))) = [sql]"
  using assms
  by (auto simp: createTable_def await_def query_def resolve_def entries_def Let_def
      split: prod.splits sum.splits)

text \<open>
  Claim C6. When every column renders, the statement of \<^verbatim>\<open>createTable\<close> and the staging
  statement of a recreation are the column definitions, then (staging only) one
  \<^verbatim>\<open>FOREIGN KEY(...) REFERENCES table(...)\<close> clause per foreign key of the descriptor, in
  their order, then the composite \<^verbatim>\<open>PRIMARY KEY(col, ...)\<close> clause, then the closing
  parenthesis. The composite clause is there if and only if some column is primary and not
  generated, and lists exactly those columns, unquoted, in declared order. These are the
  statements the two operations issue first.
\<close>

theorem createTable_clauses:
  \<open>mapE buildCreateColumnSql (tbl_columns table) = Inr defs \<longrightarrow>
     (let primaryKeyColumns =
            filter (\<lambda>column. col_isPrimary column \<and> \<not> col_isGenerated column) (tbl_columns table);
          primaryKeyClause =
            (if primaryKeyColumns = [] then []
             else '', PRIMARY KEY('' @ join '', '' (map col_name primaryKeyColumns) @ '')'');
          foreignKeyClause = (\<lambda>foreignKey.
            '', FOREIGN KEY('' @
            join '', '' (map (\<lambda>name. ''"'' @ name @ ''"'') (fk_columnNames foreignKey)) @
            '') REFERENCES "'' @ fk_referencedTableName foreignKey @ ''"('' @
            join '', '' (map (\<lambda>name. ''"'' @ name @ ''"'') (fk_referencedColumnNames foreignKey)) @
            '')'');
          created = ''CREATE TABLE IF NOT EXISTS "'' @ tbl_name table @ ''" ('' @
            join '', '' defs @ primaryKeyClause @ '')'';
          staged = ''CREATE TABLE "temporary_'' @ tbl_name table @ ''" ('' @
            join '', '' defs @ concat (map foreignKeyClause (tbl_foreignKeys table)) @
            primaryKeyClause @ '')''
      in createTableSql table = Inr created \<and> stagingSql table = Inr staged \<and>
         (\<not> isReleased r \<longrightarrow>
            issued (entries r (snd (createTable E table r))) = [created] \<and>
            take 1 (issued (entries r (snd (recreateTable E table r)))) = [staged]))\<close>
proof
  assume defs: "mapE buildCreateColumnSql (tbl_columns table) = Inr defs"
  let ?pk = "filter (\<lambda>column. col_isPrimary column \<and> \<not> col_isGenerated column) (tbl_columns table)"
  let ?pkc = "if ?pk = [] then []
             else '', PRIMARY KEY('' @ join '', '' (map col_name ?pk) @ '')''"
  have c: \<open>createTableSql table =
      Inr (''CREATE TABLE IF NOT EXISTS "'' @ tbl_name table @ ''" ('' @
            join '', '' defs @ ?pkc @ '')'')\<close>
    using defs by (simp add: createTableSql_def Let_def)
  have s: \<open>stagingSql table =
      Inr (''CREATE TABLE "temporary_'' @ tbl_name table @ ''" ('' @
            join '', '' defs @ concat (map (addForeignKeyClause []) (tbl_foreignKeys table)) @
            ?pkc @ '')'')\<close>
    using defs by (simp add: stagingSql_def Let_def foldl_addForeignKeyClause)
  have f: \<open>addForeignKeyClause [] = (\<lambda>foreignKey.
            '', FOREIGN KEY('' @
            join '', '' (map (\<lambda>name. ''"'' @ name @ ''"'') (fk_columnNames foreignKey)) @
            '') REFERENCES "'' @ fk_referencedTableName foreignKey @ ''"('' @
            join '', '' (map (\<lambda>name. ''"'' @ name @ ''"'') (fk_referencedColumnNames foreignKey)) @
            '')'')\<close>
    by (rule ext) (simp add: addForeignKeyClause_def Let_def)
  show \<open>let primaryKeyColumns =
            filter (\<lambda>column. col_isPrimary column \<and> \<not> col_isGenerated column) (tbl_columns table);
          primaryKeyClause =
            (if primaryKeyColumns = [] then []
             else '', PRIMARY KEY('' @ join '', '' (map col_name primaryKeyColumns) @ '')'');
          foreignKeyClause = (\<lambda>foreignKey.
            '', FOREIGN KEY('' @
            join '', '' (map (\<lambda>name. ''"'' @ name @ ''"'') (fk_columnNames foreignKey)) @
            '') REFERENCES "'' @ fk_referencedTableName foreignKey @ ''"('' @
            join '', '' (map (\<lambda>name. ''"'' @ name @ ''"'') (fk_referencedColumnNames foreignKey)) @
            '')'');
          created = ''CREATE TABLE IF NOT EXISTS "'' @ tbl_name table @ ''" ('' @
            join '', '' defs @ primaryKeyClause @ '')'';
          staged = ''CREATE TABLE "temporary_'' @ tbl_name table @ ''" ('' @
            join '', '' defs @ concat (map foreignKeyClause (tbl_foreignKeys table)) @
            primaryKeyClause @ '')''
      in createTableSql table = Inr created \<and> stagingSql table = Inr staged \<and>
         (\<not> isReleased r \<longrightarrow>
            issued (entries r (snd (createTable E table r))) = [created] \<and>
            take 1 (issued (entries r (snd (recreateTable E table r)))) = [staged])\<close>
    unfolding Let_def
    using c s [unfolded f]
      createTable_statement [OF _ c, of r E]
      recreateTable_first_statement [OF _ s [unfolded f], of r E]
    by simp
qed

theorem createTable_clauses_witness:
  \<open>mapE buildCreateColumnSql (tbl_columns tableK) =
     Inr [''"a" text NOT NULL'', ''"b" text NOT NULL'', ''"c" text''] \<and>
   createTableSql tableK =
     Inr ''CREATE TABLE IF NOT EXISTS "k" ("a" text NOT NULL, "b" text NOT NULL, "c" text, PRIMARY KEY(a, b))'' \<and>
   stagingSql tableK =
     Inr ''CREATE TABLE "temporary_k" ("a" text NOT NULL, "b" text NOT NULL, "c" text, PRIMARY KEY(a, b))'' \<and>
   mapE buildCreateColumnSql (tbl_columns tableT) =
     Inr [''"id" integer NOT NULL PRIMARY KEY AUTOINCREMENT'', ''"a" text'', ''"p" text''] \<and>
   createTableSql tableT =
     Inr ''CREATE TABLE IF NOT EXISTS "t" ("id" integer NOT NULL PRIMARY KEY AUTOINCREMENT, "a" text, "p" text)'' \<and>
   stagingSql tableT =
     Inr ''CREATE TABLE "temporary_t" ("id" integer NOT NULL PRIMARY KEY AUTOINCREMENT, "a" text, "p" text, FOREIGN KEY("p") REFERENCES "parent"("id"))'' \<and>
   \<not> isReleased freshRunner \<and>
   issued (entries freshRunner (snd (createTable quietEngine tableT freshRunner))) =
     [''CREATE TABLE IF NOT EXISTS "t" ("id" integer NOT NULL PRIMARY KEY AUTOINCREMENT, "a" text, "p" text)''] \<and>
   take 1 (issued (entries freshRunner (snd (recreateTable quietEngine tableT freshRunner)))) =
     [''CREATE TABLE "temporary_t" ("id" integer NOT NULL PRIMARY KEY AUTOINCREMENT, "a" text, "p" text, FOREIGN KEY("p") REFERENCES "parent"("id"))'']\<close>
proof -
  have k: \<open>mapE buildCreateColumnSql (tbl_columns tableK) =
     Inr [''"a" text NOT NULL'', ''"b" text NOT NULL'', ''"c" text'']\<close>
    by code_simp
  have t: \<open>mapE buildCreateColumnSql (tbl_columns tableT) =
     Inr [''"id" integer NOT NULL PRIMARY KEY AUTOINCREMENT'', ''"a" text'', ''"p" text'']\<close>
    by code_simp
  have live: "\<not> isReleased freshRunner" by (simp add: freshRunner_def)
  have cols: "tbl_name tableK = ''k''" "tbl_foreignKeys tableK = []"
    "filter (\<lambda>column. col_isPrimary column \<and> \<not> col_isGenerated column) (tbl_columns tableK)
       = [(textColumn ''a'')\<lparr>col_isPrimary := True, col_isNullable := False\<rparr>,
          (textColumn ''b'')\<lparr>col_isPrimary := True, col_isNullable := False\<rparr>]"
    "tbl_name tableT = ''t''" "tbl_foreignKeys tableT = [parentKey]"
    "filter (\<lambda>column. col_isPrimary column \<and> \<not> col_isGenerated column) (tbl_columns tableT) = []"
    by (simp_all add: tableK_def tableT_def textColumn_def idColumn_def)
  have names: "col_name (textColumn ''a'') = ''a''" "col_name (textColumn ''b'') = ''b''"
    "fk_columnNames parentKey = [''p'']" "fk_referencedColumnNames parentKey = [''id'']"
    "fk_referencedTableName parentKey = ''parent''"
    by (simp_all add: textColumn_def parentKey_def)
  show ?thesis
    using k t live
      createTable_clauses [of tableK "[''\"a\" text NOT NULL'', ''\"b\" text NOT NULL'', ''\"c\" text'']"
        freshRunner quietEngine]
      createTable_clauses [of tableT
        "[''\"id\" integer NOT NULL PRIMARY KEY AUTOINCREMENT'', ''\"a\" text'', ''\"p\" text'']"
        freshRunner quietEngine]
    by (simp add: cols names Let_def)
qed


subsection \<open>Release\<close>

text \<open>
  Claim C7, as amended. When the connection has a release callback, \<^verbatim>\<open>release\<close> marks the
  runner released, and every later operation (query, insert, update, delete, clearDatabase,
  loadSchemaTables, createTable, the operations that recreate a table, index creation and
  dropping, beginTransaction, commitTransaction, rollbackTransaction) fails with the
  already-released error and leaves the runner, the engine and the log as they were. When
  the connection has no release callback, \<^verbatim>\<open>release\<close> resolves and changes nothing.
  \<^verbatim>\<open>isTransactionActive\<close> has no guard: it returns the flag of the connection.
\<close>

theorem released_runner_rejects:
  "(dc_releaseCallback r = None \<longrightarrow> release r = (Inr (), r)) \<and>
   isTransactionActive (snd (release r)) = dc_isTransactionActive r \<and>
   (dc_releaseCallback r = Some outcome \<longrightarrow>
     (let r' = snd (release r) in
      isReleased r' \<and>
      query E q ps r' = (Inl QueryRunnerAlreadyReleasedError, r') \<and>
      insert_row E D tableName keyValues generatedColumn r' = (Inl QueryRunnerAlreadyReleasedError, r') \<and>
      update_rows E D tableName valuesMap conditions r' = (Inl QueryRunnerAlreadyReleasedError, r') \<and>
      delete_rows E D tableName conditions r' = (Inl QueryRunnerAlreadyReleasedError, r') \<and>
      clearDatabase E r' = (Inl QueryRunnerAlreadyReleasedError, r') \<and>
      loadSchemaTables E namingStrategy tableNames r' = (Inl QueryRunnerAlreadyReleasedError, r') \<and>
      createTable E table r' = (Inl QueryRunnerAlreadyReleasedError, r') \<and>
      createColumns E table columns r' = (Inl QueryRunnerAlreadyReleasedError, r') \<and>
      changeColumns E table changedColumns r' = (Inl QueryRunnerAlreadyReleasedError, r') \<and>
      dropColumns E tableSchema columns h r' = ((Inl QueryRunnerAlreadyReleasedError, r'), h) \<and>
      updatePrimaryKeys E table r' = (Inl QueryRunnerAlreadyReleasedError, r') \<and>
      createForeignKeys E tableSchema foreignKeys h r' = ((Inl QueryRunnerAlreadyReleasedError, r'), h) \<and>
      dropForeignKeys E tableSchema foreignKeys h r' = ((Inl QueryRunnerAlreadyReleasedError, r'), h) \<and>
      createIndex E index r' = (Inl QueryRunnerAlreadyReleasedError, r') \<and>
      dropIndex E tableName indexName isGenerated r' = (Inl QueryRunnerAlreadyReleasedError, r') \<and>
      beginTransaction E r' = (Inl QueryRunnerAlreadyReleasedError, r') \<and>
      commitTransaction E r' = (Inl QueryRunnerAlreadyReleasedError, r') \<and>
      rollbackTransaction E r' = (Inl QueryRunnerAlreadyReleasedError, r')))"
proof (intro conjI impI)
  assume "dc_releaseCallback r = None"
  then show "release r = (Inr (), r)"
    by (simp add: release_def)
next
  show "isTransactionActive (snd (release r)) = dc_isTransactionActive r"
    by (simp add: release_def isTransactionActive_def split: option.splits)
next
  assume "dc_releaseCallback r = Some outcome"
  then have rel: "isReleased (snd (release r))"
    by (simp add: release_def)
  show "let r' = snd (release r) in
      isReleased r' \<and>
      query E q ps r' = (Inl QueryRunnerAlreadyReleasedError, r') \<and>
      insert_row E D tableName keyValues generatedColumn r' = (Inl QueryRunnerAlreadyReleasedError, r') \<and>
      update_rows E D tableName valuesMap conditions r' = (Inl QueryRunnerAlreadyReleasedError, r') \<and>
      delete_rows E D tableName conditions r' = (Inl QueryRunnerAlreadyReleasedError, r') \<and>
      clearDatabase E r' = (Inl QueryRunnerAlreadyReleasedError, r') \<and>
      loadSchemaTables E namingStrategy tableNames r' = (Inl QueryRunnerAlreadyReleasedError, r') \<and>
      createTable E table r' = (Inl QueryRunnerAlreadyReleasedError, r') \<and>
      createColumns E table columns r' = (Inl QueryRunnerAlreadyReleasedError, r') \<and>
      changeColumns E table changedColumns r' = (Inl QueryRunnerAlreadyReleasedError, r') \<and>
      dropColumns E tableSchema columns h r' = ((Inl QueryRunnerAlreadyReleasedError, r'), h) \<and>
      updatePrimaryKeys E table r' = (Inl QueryRunnerAlreadyReleasedError, r') \<and>
      createForeignKeys E tableSchema foreignKeys h r' = ((Inl QueryRunnerAlreadyReleasedError, r'), h) \<and>
      dropForeignKeys E tableSchema foreignKeys h r' = ((Inl QueryRunnerAlreadyReleasedError, r'), h) \<and>
      createIndex E index r' = (Inl QueryRunnerAlreadyReleasedError, r') \<and>
      dropIndex E tableName indexName isGenerated r' = (Inl QueryRunnerAlreadyReleasedError, r') \<and>
      beginTransaction E r' = (Inl QueryRunnerAlreadyReleasedError, r') \<and>
      commitTransaction E r' = (Inl QueryRunnerAlreadyReleasedError, r') \<and>
      rollbackTransaction E r' = (Inl QueryRunnerAlreadyReleasedError, r')"
    unfolding Let_def
    using rel
    by (simp add: query_def insert_row_def update_rows_def delete_rows_def clearDatabase_def
        loadSchemaTables_def createTable_def createColumns_def changeColumns_def dropColumns_def
        updatePrimaryKeys_def createForeignKeys_def dropForeignKeys_def createIndex_def
        dropIndex_def beginTransaction_def commitTransaction_def rollbackTransaction_def)
qed

theorem released_runner_rejects_witness:
  "dc_releaseCallback freshRunner = None \<and>
   release freshRunner = (Inr (), freshRunner) \<and>
   dc_releaseCallback pooledRunner = Some None \<and>
   release pooledRunner = (Inr (), pooledRunner\<lparr>isReleased := True\<rparr>) \<and>
   query quietEngine ''COMMIT'' [] (pooledRunner\<lparr>isReleased := True\<rparr>)
     = (Inl QueryRunnerAlreadyReleasedError, pooledRunner\<lparr>isReleased := True\<rparr>) \<and>
   loadSchemaTables catalogEngine simpleNaming (Some [''a'']) (pooledRunner\<lparr>isReleased := True\<rparr>)
     = (Inl QueryRunnerAlreadyReleasedError, pooledRunner\<lparr>isReleased := True\<rparr>) \<and>
   createTable quietEngine tableT (pooledRunner\<lparr>isReleased := True\<rparr>)
     = (Inl QueryRunnerAlreadyReleasedError, pooledRunner\<lparr>isReleased := True\<rparr>) \<and>
   dropColumns quietEngine 0 [textColumn ''a''] [tableT] (pooledRunner\<lparr>isReleased := True\<rparr>)
     = ((Inl QueryRunnerAlreadyReleasedError, pooledRunner\<lparr>isReleased := True\<rparr>), [tableT]) \<and>
   beginTransaction quietEngine (pooledRunner\<lparr>isReleased := True\<rparr>)
     = (Inl QueryRunnerAlreadyReleasedError, pooledRunner\<lparr>isReleased := True\<rparr>)"
proof -
  have cb: "dc_releaseCallback pooledRunner = Some None"
    by (simp add: pooledRunner_def)
  have rel: "release pooledRunner = (Inr (), pooledRunner\<lparr>isReleased := True\<rparr>)"
    by (simp add: release_def cb)
  have none: "dc_releaseCallback freshRunner = None"
    by (simp add: freshRunner_def)
  show ?thesis
    using cb rel none
      released_runner_rejects [where r = freshRunner and outcome = None]
      released_runner_rejects [where r = pooledRunner and outcome = None and E = quietEngine
        and q = "''COMMIT''" and ps = "[]" and table = tableT and tableSchema = 0
        and columns = "[textColumn ''a'']" and h = "[tableT]"]
      released_runner_rejects [where r = pooledRunner and outcome = None and E = catalogEngine
        and namingStrategy = simpleNaming and tableNames = "Some [''a'']"]
    by (simp add: Let_def)
qed

text \<open>
  Claim C7 as stated fails on a connection that is not from a pool: \<^verbatim>\<open>release\<close> resolves
  without marking the runner, and the next query is run by the engine. On a released runner
  \<^verbatim>\<open>isTransactionActive\<close> still answers.
\<close>

theorem release_without_callback_counterexample:
  "dc_releaseCallback freshRunner = None \<and>
   release freshRunner = (Inr (), freshRunner) \<and>
   query quietEngine ''COMMIT'' [] (snd (release freshRunner))
     = (Inr (Rows []), freshRunner\<lparr>logger := [LogQuery ''COMMIT'' []]\<rparr>) \<and>
   isReleased (snd (release pooledRunner)) \<and>
   isTransactionActive (snd (release pooledRunner)) = False"
  by (simp add: release_def freshRunner_def pooledRunner_def query_def quietEngine_def settle_def
      rowsResult_def isTransactionActive_def)

subsection \<open>Edits on a clone\<close>

text \<open>
  Claim C9. \<^verbatim>\<open>dropColumns\<close>, \<^verbatim>\<open>createForeignKeys\<close> and \<^verbatim>\<open>dropForeignKeys\<close> leave the
  descriptor they are given, and every other descriptor of the store, as it was; the edit is
  made on a clone at a new address, and the recreation runs on the edited clone.
\<close>

theorem structural_edits_leave_argument:
  "tableSchema < length h \<longrightarrow>
     snd (dropColumns E tableSchema columns h r) ! tableSchema = h ! tableSchema \<and>
     take (length h) (snd (dropColumns E tableSchema columns h r)) = h \<and>
     fst (dropColumns E tableSchema columns h r) =
       (if isReleased r then (Inl QueryRunnerAlreadyReleasedError, r)
        else recreateTable E (removeColumns columns (h ! tableSchema)) r) \<and>
     snd (createForeignKeys E tableSchema foreignKeys h r) ! tableSchema = h ! tableSchema \<and>
     take (length h) (snd (createForeignKeys E tableSchema foreignKeys h r)) = h \<and>
     fst (createForeignKeys E tableSchema foreignKeys h r) =
       (if isReleased r then (Inl QueryRunnerAlreadyReleasedError, r)
        else recreateTable E (addForeignKeys foreignKeys (h ! tableSchema)) r) \<and>
     snd (dropForeignKeys E tableSchema foreignKeys h r) ! tableSchema = h ! tableSchema \<and>
     take (length h) (snd (dropForeignKeys E tableSchema foreignKeys h r)) = h \<and>
     fst (dropForeignKeys E tableSchema foreignKeys h r) =
       (if isReleased r then (Inl QueryRunnerAlreadyReleasedError, r)
        else recreateTable E (removeForeignKeys foreignKeys (h ! tableSchema)) r)"
  by (simp add: dropColumns_def createForeignKeys_def dropForeignKeys_def clone_def Let_def
      nth_append)

theorem structural_edits_leave_argument_witness:
  "(0::nat) < length [tableT] \<and>
   snd (dropColumns quietEngine 0 [textColumn ''a''] [tableT] freshRunner) ! 0 = tableT \<and>
   take 1 (snd (dropColumns quietEngine 0 [textColumn ''a''] [tableT] freshRunner)) = [tableT] \<and>
   fst (dropColumns quietEngine 0 [textColumn ''a''] [tableT] freshRunner) =
     recreateTable quietEngine (removeColumns [textColumn ''a''] tableT) freshRunner \<and>
   map col_name (tbl_columns (removeColumns [textColumn ''a''] tableT)) = [''id'', ''p''] \<and>
   snd (createForeignKeys quietEngine 0 [parentKey] [tableT] freshRunner) ! 0 = tableT \<and>
   snd (dropForeignKeys quietEngine 0 [parentKey] [tableT] freshRunner) ! 0 = tableT \<and>
   tbl_foreignKeys (removeForeignKeys [parentKey] tableT) = []"
proof -
  have live: "\<not> isReleased freshRunner" by (simp add: freshRunner_def)
  have cols: "map col_name (tbl_columns (removeColumns [textColumn ''a''] tableT)) = [''id'', ''p'']"
    by (simp add: removeColumns_def tableT_def textColumn_def idColumn_def)
  have keys: "tbl_foreignKeys (removeForeignKeys [parentKey] tableT) = []"
    by (simp add: removeForeignKeys_def tableT_def)
  show ?thesis
    using live cols keys
      structural_edits_leave_argument [of 0 "[tableT]" quietEngine "[textColumn ''a'']" freshRunner
        "[parentKey]"]
    by simp
qed

subsection \<open>Reading the catalog\<close>

text \<open>
  Claim C2 fails on the code: the catalog query does not mention the names it is given, so
  with the tables \<^verbatim>\<open>a\<close> and \<^verbatim>\<open>b\<close> in the catalog a call for \<^verbatim>\<open>a\<close> alone reads both
  tables and returns a descriptor for each.
\<close>

theorem loadSchemaTables_unlisted_table:
  \<open>map_sum id (map tbl_name)
     (fst (loadSchemaTables catalogEngine simpleNaming (Some [''a'']) freshRunner))
     = Inr [''a'', ''b''] \<and>
   hd (issued (logger (snd (loadSchemaTables catalogEngine simpleNaming (Some [''a'']) freshRunner))))
     = tablesSql \<and>
   tableInfoSql ''b'' \<in>
     set (issued (logger (snd (loadSchemaTables catalogEngine simpleNaming (Some [''a'']) freshRunner))))\<close>
  by code_simp

text \<open>
  Claim C4 fails on the code: the index \<^verbatim>\<open>idx_x\<close>, which the catalog reports with the
  number 1 in its \<^verbatim>\<open>unique\<close> field, as for an index made by \<^verbatim>\<open>CREATE UNIQUE INDEX\<close>,
  comes back with its uniqueness flag clear, because line 351 compares the field with the
  string \<^verbatim>\<open>"1"\<close> (line 339 compares it with the number).
\<close>

theorem loadSchemaTables_unique_index_flag:
  \<open>createIndexSql
      \<lparr>idx_tableName = ''a'', idx_name = ''idx_x'', idx_columnNames = [''x''], idx_isUnique = True\<rparr>
     = ''CREATE UNIQUE INDEX "idx_x" ON "a"("x")'' \<and>
   map_sum id (map tbl_indices)
     (fst (loadSchemaTables catalogEngine simpleNaming (Some [''a'', ''b'']) freshRunner))
     = Inr [[\<lparr>idx_tableName = ''a'', idx_name = ''idx_x'', idx_columnNames = [''x''],
              idx_isUnique = False\<rparr>], []]\<close>
  by code_simp


subsection \<open>Detection of the generated column\<close>

lemma indexOf_from_absent: "c \<notin> set xs \<Longrightarrow> indexOf_from i xs [c] = - 1"
  by (induction xs arbitrary: i) auto

lemma indexOf_from_first:
  "c \<notin> set xs \<Longrightarrow> indexOf_from i (xs @ c # ys) [c] = int (i + length xs)"
  by (induction xs arbitrary: i) auto

lemma lastIndexOf_from_absent: "c \<notin> set xs \<Longrightarrow> lastIndexOf_from i found xs [c] = found"
  by (induction xs arbitrary: i found) auto

lemma lastIndexOf_from_last:
  "c \<notin> set ys \<Longrightarrow> lastIndexOf_from i found (xs @ c # ys) [c] = int (i + length xs)"
  by (induction xs arbitrary: i found) (auto simp: lastIndexOf_from_absent)

lemma indexOf_first: "c \<notin> set xs \<Longrightarrow> indexOf (xs @ c # ys) [c] = int (length xs)"
  by (simp add: indexOf_def indexOf_from_first)

lemma lastIndexOf_last: "c \<notin> set ys \<Longrightarrow> lastIndexOf (xs @ c # ys) [c] = int (length xs)"
  by (simp add: lastIndexOf_def lastIndexOf_from_last)

lemma lastIndexOf_absent: "c \<notin> set xs \<Longrightarrow> lastIndexOf xs [c] = - 1"
  by (simp add: lastIndexOf_def lastIndexOf_from_absent)

lemma substr_prefix: "substr (xs @ ys) (int (length xs)) = ys"
  by (simp add: substr_def substr_start_def)

lemma substr2_prefix: "substr2 (xs @ ys) 0 (int (length xs)) = xs"
  by (simp add: substr2_def substr_start_def)

lemma quoted_name_of_span:
  assumes "CHR 0x22 \<notin> set pre" "CHR 0x22 \<notin> set post"
  shows \<open>quotedName (pre @ ''"'' @ columnName @ ''"'' @ post) = columnName\<close>
proof -
  let ?a1 = \<open>pre @ ''"'' @ columnName @ ''"'' @ post\<close>
  let ?a2 = \<open>pre @ ''"'' @ columnName\<close>
  have "?a1 = ?a2 @ CHR 0x22 # post" by simp
  then have last: \<open>lastIndexOf ?a1 ''"'' = int (length ?a2)\<close>
    using lastIndexOf_last [of "CHR 0x22" post ?a2] assms(2) by simp
  have a2: \<open>substr2 ?a1 0 (lastIndexOf ?a1 ''"'') = ?a2\<close>
    unfolding last using substr2_prefix [of ?a2 "CHR 0x22 # post"] by simp
  have "?a2 = pre @ CHR 0x22 # columnName" by simp
  then have first: \<open>indexOf ?a2 ''"'' = int (length pre)\<close>
    using indexOf_first [of "CHR 0x22" pre columnName] assms(1) by simp
  have \<open>substr ?a2 (indexOf ?a2 ''"'' + 1) = columnName\<close>
    unfolding first using substr_prefix [of "pre @ [CHR 0x22]" columnName]
    by (simp add: add.commute)
  with a2 show ?thesis by (simp add: quotedName_def Let_def)
qed

lemma span_from_comma:
  assumes first: "indexOf (lead @ ''AUTOINCREMENT'' @ rest) ''AUTOINCREMENT'' = int (length lead)"
    and lead: "lead = before @ '','' @ span" and span: "CHR '','' \<notin> set span"
  shows "autoIncrementColumnName (lead @ ''AUTOINCREMENT'' @ rest) = Some (quotedName ('','' @ span))"
proof -
  define whole where "whole = lead @ ''AUTOINCREMENT'' @ rest"
  have first: "indexOf whole ''AUTOINCREMENT'' = int (length lead)"
    using first by (simp add: whole_def)
  have prefix: "substr2 whole 0 (int (length lead)) = lead"
    unfolding whole_def by (rule substr2_prefix)
  have comma: "lastIndexOf lead '','' = int (length before)"
    using lastIndexOf_last [of "CHR '',''" span before] span lead by simp
  have a1: "substr lead (int (length before)) = '','' @ span"
    using substr_prefix [of before "'','' @ span"] lead by simp
  have "autoIncrementColumnName whole = Some (quotedName ('','' @ span))"
    by (simp add: autoIncrementColumnName_def first prefix comma a1 Let_def)
  then show ?thesis by (simp only: whole_def)
qed

lemma span_from_bracket:
  assumes first: "indexOf (lead @ ''AUTOINCREMENT'' @ rest) ''AUTOINCREMENT'' = int (length lead)"
    and lead: "lead = before @ ''('' @ span" and none: "CHR '','' \<notin> set lead"
    and span: "CHR ''('' \<notin> set span"
  shows "autoIncrementColumnName (lead @ ''AUTOINCREMENT'' @ rest) = Some (quotedName (''('' @ span))"
proof -
  define whole where "whole = lead @ ''AUTOINCREMENT'' @ rest"
  have first: "indexOf whole ''AUTOINCREMENT'' = int (length lead)"
    using first by (simp add: whole_def)
  have prefix: "substr2 whole 0 (int (length lead)) = lead"
    unfolding whole_def by (rule substr2_prefix)
  have comma: "lastIndexOf lead '','' = - 1"
    using lastIndexOf_absent [of "CHR '',''" lead] none by blast
  have bracket: "lastIndexOf lead ''('' = int (length before)"
    using lastIndexOf_last [of "CHR ''(''" span before] span lead by simp
  have a1: "substr lead (int (length before)) = ''('' @ span"
    using substr_prefix [of before "''('' @ span"] lead by simp
  have "autoIncrementColumnName whole = Some (quotedName (''('' @ span))"
    by (simp add: autoIncrementColumnName_def first prefix comma bracket a1 Let_def)
  then show ?thesis by (simp only: whole_def)
qed

text \<open>
  Claim C3, as amended. Without the keyword nothing is detected. Otherwise the span that is
  searched starts at the last comma before the first occurrence of the keyword whenever
  there is one, also when an opening parenthesis is closer to the keyword, and at the last
  opening parenthesis only when there is no comma; the detected name is what lies between
  the first quote of the span and its last quote. So for \<^verbatim>\<open>..., "col" ... AUTOINCREMENT\<close>
  with no comma in \<^verbatim>\<open>col\<close> or after it and no quote after it, the detected name is
  \<^verbatim>\<open>col\<close>; and with no comma before the keyword, for \<^verbatim>\<open>...("col" ... AUTOINCREMENT\<close>
  with no parenthesis in \<^verbatim>\<open>col\<close> or after it and no quote after it, it is \<^verbatim>\<open>col\<close> too.
\<close>

theorem autoIncrementColumnName_patterns:
  \<open>(indexOf tableSql ''AUTOINCREMENT'' = - 1 \<longrightarrow> autoIncrementColumnName tableSql = None) \<and>
   (indexOf (lead @ ''AUTOINCREMENT'' @ rest) ''AUTOINCREMENT'' = int (length lead) \<longrightarrow>
     (lead = before @ '','' @ span \<and> CHR '','' \<notin> set span
        \<longrightarrow> autoIncrementColumnName (lead @ ''AUTOINCREMENT'' @ rest)
              = Some (quotedName ('','' @ span))) \<and>
     (lead = before @ ''('' @ span \<and> CHR '','' \<notin> set lead \<and> CHR ''('' \<notin> set span
        \<longrightarrow> autoIncrementColumnName (lead @ ''AUTOINCREMENT'' @ rest)
              = Some (quotedName (''('' @ span))) \<and>
     (CHR 0x22 \<notin> set pre \<and> CHR 0x22 \<notin> set post
        \<longrightarrow> quotedName (pre @ ''"'' @ columnName @ ''"'' @ post) = columnName) \<and>
     (lead = before @ '','' @ gap @ ''"'' @ columnName @ ''"'' @ after \<and>
      CHR '','' \<notin> set (gap @ columnName @ after) \<and> CHR 0x22 \<notin> set (gap @ after)
        \<longrightarrow> autoIncrementColumnName (lead @ ''AUTOINCREMENT'' @ rest) = Some columnName) \<and>
     (lead = before @ ''('' @ gap @ ''"'' @ columnName @ ''"'' @ after \<and>
      CHR '','' \<notin> set lead \<and> CHR ''('' \<notin> set (gap @ columnName @ after) \<and>
      CHR 0x22 \<notin> set (gap @ after)
        \<longrightarrow> autoIncrementColumnName (lead @ ''AUTOINCREMENT'' @ rest) = Some columnName))\<close>
proof (intro conjI impI)
  assume "indexOf tableSql ''AUTOINCREMENT'' = - 1"
  then show "autoIncrementColumnName tableSql = None"
    by (simp add: autoIncrementColumnName_def)
next
  assume "indexOf (lead @ ''AUTOINCREMENT'' @ rest) ''AUTOINCREMENT'' = int (length lead)"
    and "lead = before @ '','' @ span \<and> CHR '','' \<notin> set span"
  then show "autoIncrementColumnName (lead @ ''AUTOINCREMENT'' @ rest)
      = Some (quotedName ('','' @ span))"
    using span_from_comma [of lead rest before span] by blast
next
  assume "indexOf (lead @ ''AUTOINCREMENT'' @ rest) ''AUTOINCREMENT'' = int (length lead)"
    and "lead = before @ ''('' @ span \<and> CHR '','' \<notin> set lead \<and> CHR ''('' \<notin> set span"
  then show "autoIncrementColumnName (lead @ ''AUTOINCREMENT'' @ rest)
      = Some (quotedName (''('' @ span))"
    using span_from_bracket [of lead rest before span] by blast
next
  assume "CHR 0x22 \<notin> set pre \<and> CHR 0x22 \<notin> set post"
  then show \<open>quotedName (pre @ ''"'' @ columnName @ ''"'' @ post) = columnName\<close>
    using quoted_name_of_span [of pre post columnName] by blast
next
  assume first: "indexOf (lead @ ''AUTOINCREMENT'' @ rest) ''AUTOINCREMENT'' = int (length lead)"
    and shape: \<open>lead = before @ '','' @ gap @ ''"'' @ columnName @ ''"'' @ after \<and>
      CHR '','' \<notin> set (gap @ columnName @ after) \<and> CHR 0x22 \<notin> set (gap @ after)\<close>
  from shape have lead: \<open>lead = before @ '','' @ (gap @ ''"'' @ columnName @ ''"'' @ after)\<close>
    by blast
  from shape have span: \<open>CHR '','' \<notin> set (gap @ ''"'' @ columnName @ ''"'' @ after)\<close>
    by simp
  have "autoIncrementColumnName (lead @ ''AUTOINCREMENT'' @ rest)
      = Some (quotedName ('','' @ gap @ ''\"'' @ columnName @ ''\"'' @ after))"
    by (rule span_from_comma [OF first lead span])
  also have "\<dots> = Some columnName"
    using quoted_name_of_span [of "'','' @ gap" after columnName] shape by simp
  finally show "autoIncrementColumnName (lead @ ''AUTOINCREMENT'' @ rest) = Some columnName" .
next
  assume first: "indexOf (lead @ ''AUTOINCREMENT'' @ rest) ''AUTOINCREMENT'' = int (length lead)"
    and shape: \<open>lead = before @ ''('' @ gap @ ''"'' @ columnName @ ''"'' @ after \<and>
      CHR '','' \<notin> set lead \<and> CHR ''('' \<notin> set (gap @ columnName @ after) \<and>
      CHR 0x22 \<notin> set (gap @ after)\<close>
  from shape have lead: \<open>lead = before @ ''('' @ (gap @ ''"'' @ columnName @ ''"'' @ after)\<close>
    by blast
  from shape have none: "CHR '','' \<notin> set lead"
    by blast
  from shape have span: \<open>CHR ''('' \<notin> set (gap @ ''"'' @ columnName @ ''"'' @ after)\<close>
    by simp
  have "autoIncrementColumnName (lead @ ''AUTOINCREMENT'' @ rest)
      = Some (quotedName (''('' @ gap @ ''\"'' @ columnName @ ''\"'' @ after))"
    by (rule span_from_bracket [OF first lead none span])
  also have "\<dots> = Some columnName"
    using quoted_name_of_span [of "''('' @ gap" after columnName] shape by simp
  finally show "autoIncrementColumnName (lead @ ''AUTOINCREMENT'' @ rest) = Some columnName" .
qed

theorem autoIncrementColumnName_patterns_witness:
  \<open>indexOf ''CREATE TABLE "b" ("y" text)'' ''AUTOINCREMENT'' = - 1 \<and>
   autoIncrementColumnName ''CREATE TABLE "b" ("y" text)'' = None \<and>
   indexOf defaultKeySql ''AUTOINCREMENT'' = 65 \<and>
   autoIncrementColumnName defaultKeySql = Some ''id'' \<and>
   indexOf ''CREATE TABLE "t" ("id" integer PRIMARY KEY AUTOINCREMENT)'' ''AUTOINCREMENT'' = 43 \<and>
   autoIncrementColumnName ''CREATE TABLE "t" ("id" integer PRIMARY KEY AUTOINCREMENT)'' = Some ''id''\<close>
proof -
  have none: \<open>indexOf ''CREATE TABLE "b" ("y" text)'' ''AUTOINCREMENT'' = - 1\<close>
    by code_simp
  have s1: \<open>defaultKeySql =
      (''CREATE TABLE "t" ("a" text'' @ '','' @ '' '' @ ''"'' @ ''id'' @ ''"'' @
       '' integer DEFAULT (0) PRIMARY KEY '') @ ''AUTOINCREMENT'' @ '')''\<close>
    by (simp add: defaultKeySql_def)
  have i1: \<open>indexOf defaultKeySql ''AUTOINCREMENT'' = 65\<close>
    by code_simp
  have i2: \<open>indexOf ''CREATE TABLE "t" ("id" integer PRIMARY KEY AUTOINCREMENT)'' ''AUTOINCREMENT'' = 43\<close>
    by code_simp
  have s2: \<open>''CREATE TABLE "t" ("id" integer PRIMARY KEY AUTOINCREMENT)'' =
      (''CREATE TABLE "t" '' @ ''('' @ [] @ ''"'' @ ''id'' @ ''"'' @ '' integer PRIMARY KEY '')
      @ ''AUTOINCREMENT'' @ '')''\<close>
    by simp
  have q1: \<open>quotedName ('','' @ '' "id" integer DEFAULT (0) PRIMARY KEY '') = ''id''\<close>
    by code_simp
  have q2: \<open>quotedName (''('' @ ''"id" integer PRIMARY KEY '') = ''id''\<close>
    by code_simp
  have w1: \<open>autoIncrementColumnName defaultKeySql = Some ''id''\<close>
    using autoIncrementColumnName_patterns [where
        lead = \<open>''CREATE TABLE "t" ("a" text'' @ '','' @ '' '' @ ''"'' @ ''id'' @ ''"'' @
          '' integer DEFAULT (0) PRIMARY KEY ''\<close> and rest = \<open>'')''\<close>
        and before = \<open>''CREATE TABLE "t" ("a" text''\<close> and gap = \<open>'' ''\<close>
        and columnName = \<open>''id''\<close> and after = \<open>'' integer DEFAULT (0) PRIMARY KEY ''\<close>
        and span = \<open>'' "id" integer DEFAULT (0) PRIMARY KEY ''\<close> and tableSql = \<open>[]\<close>
        and pre = \<open>'', ''\<close> and post = \<open>'' integer DEFAULT (0) PRIMARY KEY ''\<close>]
      i1 q1 unfolding s1 by simp
  have w2: \<open>autoIncrementColumnName ''CREATE TABLE "t" ("id" integer PRIMARY KEY AUTOINCREMENT)''
      = Some ''id''\<close>
    using autoIncrementColumnName_patterns [where
        lead = \<open>''CREATE TABLE "t" '' @ ''('' @ [] @ ''"'' @ ''id'' @ ''"'' @ '' integer PRIMARY KEY ''\<close>
        and rest = \<open>'')''\<close> and before = \<open>''CREATE TABLE "t" ''\<close> and gap = \<open>[]\<close>
        and columnName = \<open>''id''\<close> and after = \<open>'' integer PRIMARY KEY ''\<close>
        and span = \<open>''"id" integer PRIMARY KEY ''\<close> and tableSql = \<open>[]\<close>
        and pre = \<open>''(''\<close> and post = \<open>'' integer PRIMARY KEY ''\<close>]
      i2 q2 by simp
  have w0: \<open>autoIncrementColumnName ''CREATE TABLE "b" ("y" text)'' = None\<close>
    using autoIncrementColumnName_patterns [where tableSql = \<open>''CREATE TABLE "b" ("y" text)''\<close>]
      none by blast
  show ?thesis using none i1 i2 w0 w1 w2 by simp
qed

text \<open>
  Claim C3 as stated fails, on two creation texts the engine accepts. In the first the
  boundary nearest to the keyword is the parenthesis of \<^verbatim>\<open>DEFAULT (0)\<close>, and between it
  and the keyword there is no quoted name; the runner starts from the comma and detects
  \<^verbatim>\<open>id\<close>. In the second the comma is the nearest boundary and the nearest pair of quotes
  is that of the constraint name \<^verbatim>\<open>pk_t\<close>; the runner takes what lies between the first
  quote after the comma and the last quote before the keyword.
\<close>

theorem autoIncrementColumnName_nearest_boundary_counterexample:
  \<open>lastIndexOf (substr2 defaultKeySql 0 (indexOf defaultKeySql ''AUTOINCREMENT'')) '','' = 26 \<and>
   lastIndexOf (substr2 defaultKeySql 0 (indexOf defaultKeySql ''AUTOINCREMENT'')) ''('' = 49 \<and>
   spec_autoIncrementColumnName defaultKeySql = None \<and>
   autoIncrementColumnName defaultKeySql = Some ''id'' \<and>
   lastIndexOf (substr2 namedKeySql 0 (indexOf namedKeySql ''AUTOINCREMENT'')) '','' = 26 \<and>
   lastIndexOf (substr2 namedKeySql 0 (indexOf namedKeySql ''AUTOINCREMENT'')) ''('' = 17 \<and>
   spec_autoIncrementColumnName namedKeySql = Some ''pk_t'' \<and>
   autoIncrementColumnName namedKeySql = Some ''id" integer CONSTRAINT "pk_t''\<close>
  by code_simp

end
